theory Spec2Isabelle
  imports Complex_Main "HOL-Library.Finite_Map"
begin

section \<open>Go primitives used by the exchange-rate service\<close>

subsection \<open>float64\<close>

text \<open>
  Rates, quotes and amounts are Go \<^verbatim>\<open>float64\<close> values. The model keeps the special
  values of IEEE-754 (the two zeros, the two infinities, NaN), because the division in
  the quote extractor and the comparison \<^verbatim>\<open>Amount <= 0\<close> behave differently on them.
  A finite value carries an exact real number: rounding, overflow and underflow of finite
  results are not modelled. \<open>Fin 0\<close> is the positive zero.
\<close>

datatype float64 = Fin real | NegZero | PosInf | NegInf | NaN

fun is_zero :: "float64 \<Rightarrow> bool" where
  "is_zero (Fin x) = (x = 0)"
| "is_zero NegZero = True"
| "is_zero PosInf = False"
| "is_zero NegInf = False"
| "is_zero NaN = False"

fun is_inf :: "float64 \<Rightarrow> bool" where
  "is_inf (Fin x) = False"
| "is_inf NegZero = False"
| "is_inf PosInf = True"
| "is_inf NegInf = True"
| "is_inf NaN = False"

fun signbit :: "float64 \<Rightarrow> bool" where
  "signbit (Fin x) = (x < 0)"
| "signbit NegZero = True"
| "signbit PosInf = False"
| "signbit NegInf = True"
| "signbit NaN = False"

fun fval :: "float64 \<Rightarrow> real" where
  "fval (Fin x) = x"
| "fval NegZero = 0"
| "fval PosInf = 0"
| "fval NegInf = 0"
| "fval NaN = 0"

definition inf_of :: "bool \<Rightarrow> float64" where
  "inf_of negative = (if negative then NegInf else PosInf)"

definition zero_of :: "bool \<Rightarrow> float64" where
  "zero_of negative = (if negative then NegZero else Fin 0)"

text \<open>The Go operator \<^verbatim>\<open>/\<close> on float64: IEEE division, which never panics.\<close>

definition fdiv :: "float64 \<Rightarrow> float64 \<Rightarrow> float64" where
  "fdiv a b =
     (if a = NaN \<or> b = NaN then NaN
      else if is_inf a \<and> is_inf b then NaN
      else if is_zero a \<and> is_zero b then NaN
      else if is_inf a \<or> is_zero b then inf_of (signbit a \<noteq> signbit b)
      else if is_zero a \<or> is_inf b then zero_of (signbit a \<noteq> signbit b)
      else Fin (fval a / fval b))"

text \<open>The Go operator \<^verbatim>\<open>*\<close> on float64.\<close>

definition fmul :: "float64 \<Rightarrow> float64 \<Rightarrow> float64" where
  "fmul a b =
     (if a = NaN \<or> b = NaN then NaN
      else if (is_inf a \<and> is_zero b) \<or> (is_zero a \<and> is_inf b) then NaN
      else if is_inf a \<or> is_inf b then inf_of (signbit a \<noteq> signbit b)
      else if is_zero a \<or> is_zero b then zero_of (signbit a \<noteq> signbit b)
      else Fin (fval a * fval b))"

text \<open>
  The Go comparisons \<^verbatim>\<open><=\<close> and \<^verbatim>\<open><\<close> on float64: false whenever an operand is NaN,
  and the two zeros compare equal.
\<close>

definition fle :: "float64 \<Rightarrow> float64 \<Rightarrow> bool" where
  "fle a b =
     (if a = NaN \<or> b = NaN then False
      else if a = NegInf \<or> b = PosInf then True
      else if a = PosInf \<or> b = NegInf then False
      else fval a \<le> fval b)"

definition flt :: "float64 \<Rightarrow> float64 \<Rightarrow> bool" where
  "flt a b =
     (if a = NaN \<or> b = NaN then False
      else if a = PosInf \<or> b = NegInf then False
      else if a = NegInf \<or> b = PosInf then True
      else fval a < fval b)"

subsection \<open>time.Time and time.Duration\<close>

text \<open>
  A \<^verbatim>\<open>time.Time\<close> is modelled as the number of nanoseconds since Go's zero time,
  January 1 of year 1, 00:00:00 UTC, so that \<^verbatim>\<open>IsZero\<close> is equality with 0. Every time
  of the program is in UTC (\<^verbatim>\<open>time.Now().UTC()\<close>, or parsed by \<^verbatim>\<open>time.Parse\<close>
  from a layout without a zone). The monotonic clock reading is not modelled. A
  \<^verbatim>\<open>time.Duration\<close> is an int64 count of nanoseconds; \<^verbatim>\<open>Sub\<close> saturates at its
  bounds, which is written out. A function that calls \<^verbatim>\<open>time.Now\<close> takes the reading
  of the clock as its argument \<open>now\<close>; the readings within one call are taken to be
  equal.
\<close>

type_synonym Time = int
type_synonym Duration = int

definition Hour :: Duration where
  "Hour = 3600000000000"

definition minDuration :: Duration where
  "minDuration = - (2 ^ 63)"

definition maxDuration :: Duration where
  "maxDuration = 2 ^ 63 - 1"

definition Sub :: "Time \<Rightarrow> Time \<Rightarrow> Duration" where
  "Sub t u =
     (if t - u < minDuration then minDuration
      else if maxDuration < t - u then maxDuration
      else t - u)"

definition Before :: "Time \<Rightarrow> Time \<Rightarrow> bool" where
  "Before t u = (t < u)"

definition After :: "Time \<Rightarrow> Time \<Rightarrow> bool" where
  "After t u = (u < t)"

definition IsZero :: "Time \<Rightarrow> bool" where
  "IsZero t = (t = 0)"

text \<open>\<^verbatim>\<open>t.Truncate(d)\<close> rounds down to a multiple of \<open>d\<close> since the zero time.\<close>

definition Truncate :: "Time \<Rightarrow> Duration \<Rightarrow> Time" where
  "Truncate t d = (if d \<le> 0 then t else t - t mod d)"

text \<open>
  \<^verbatim>\<open>t.AddDate(0, 0, n)\<close> for a time in UTC: UTC has no zone transitions, so \<open>n\<close>
  calendar days are \<open>n\<close> times 24 hours.
\<close>

definition AddDate_days :: "Time \<Rightarrow> int \<Rightarrow> Time" where
  "AddDate_days t n = t + n * (24 * Hour)"

text \<open>
  \<^verbatim>\<open>t.Format("2006-01-02")\<close>: the day count since the zero time is converted to a
  date of the proleptic Gregorian calendar in stages (400-year era, year of the era,
  day of the year counted from March 1, month), and printed with zero padding. The
  printing is that of Go for the years 0000 to 9999.
\<close>

definition civil_month :: "int \<Rightarrow> int \<Rightarrow> int \<Rightarrow> int \<times> int \<times> int" where
  "civil_month y doy mp =
     (if mp < 10 then (y, mp + 3, doy - (153 * mp + 2) div 5 + 1)
      else (y + 1, mp - 9, doy - (153 * mp + 2) div 5 + 1))"

definition civil_year :: "int \<Rightarrow> int \<Rightarrow> int \<Rightarrow> int \<times> int \<times> int" where
  "civil_year era doe yoe =
     civil_month (yoe + era * 400) (doe - (365 * yoe + yoe div 4 - yoe div 100))
       ((5 * (doe - (365 * yoe + yoe div 4 - yoe div 100)) + 2) div 153)"

definition civil_era :: "int \<Rightarrow> int \<Rightarrow> int \<times> int \<times> int" where
  "civil_era era doe =
     civil_year era doe ((doe - doe div 1460 + doe div 36524 - doe div 146096) div 365)"

definition civil :: "int \<Rightarrow> int \<times> int \<times> int" where
  "civil z = civil_era ((z + 306) div 146097) ((z + 306) mod 146097)"

definition digit :: "int \<Rightarrow> char" where
  "digit n =
     (if n mod 10 = 0 then CHR ''0'' else if n mod 10 = 1 then CHR ''1''
      else if n mod 10 = 2 then CHR ''2'' else if n mod 10 = 3 then CHR ''3''
      else if n mod 10 = 4 then CHR ''4'' else if n mod 10 = 5 then CHR ''5''
      else if n mod 10 = 6 then CHR ''6'' else if n mod 10 = 7 then CHR ''7''
      else if n mod 10 = 8 then CHR ''8'' else CHR ''9'')"

definition pad2 :: "int \<Rightarrow> string" where
  "pad2 n = [digit (n div 10), digit n]"

definition pad4 :: "int \<Rightarrow> string" where
  "pad4 n = [digit (n div 1000), digit (n div 100), digit (n div 10), digit n]"

definition Format :: "Time \<Rightarrow> string" where
  "Format t =
     (case civil (t div (24 * Hour)) of
        (y, m, d) \<Rightarrow> pad4 y @ ''-'' @ pad2 m @ ''-'' @ pad2 d)"

subsection \<open>Maps\<close>

text \<open>
  A Go map is a finite map (\<open>fmap\<close>): \<open>fmlookup\<close> is the two-valued index expression
  \<^verbatim>\<open>v, ok := m[k]\<close>, \<open>fmupd\<close> the assignment \<^verbatim>\<open>m[k] = v\<close>, \<open>fmdrop\<close> the builtin
  \<^verbatim>\<open>delete\<close>, and \<open>fmempty\<close> the result of \<^verbatim>\<open>make\<close>.
\<close>

section \<open>Domain model (package model)\<close>

type_synonym Currency = string

definition USD :: Currency where "USD = ''USD''"
definition INR :: Currency where "INR = ''INR''"
definition EUR :: Currency where "EUR = ''EUR''"
definition JPY :: Currency where "JPY = ''JPY''"
definition GBP :: Currency where "GBP = ''GBP''"

definition SupportedCurrencies :: "Currency list" where
  "SupportedCurrencies = [USD, INR, EUR, JPY, GBP]"

text \<open>The loop of \<^verbatim>\<open>IsSupported\<close> over the supported currencies.\<close>

fun IsSupported_loop :: "Currency \<Rightarrow> Currency list \<Rightarrow> bool" where
  "IsSupported_loop c [] = False"
| "IsSupported_loop c (supportedCurrency # rest) =
     (if c = supportedCurrency then True else IsSupported_loop c rest)"

definition IsSupported :: "Currency \<Rightarrow> bool" where
  "IsSupported c = IsSupported_loop c SupportedCurrencies"

record ExchangeRate =
  BaseCurrency :: Currency
  TargetCurrency :: Currency
  Rate :: float64
  Date :: Time
  LastUpdated :: Time

record CurrencyPair =
  cp_BaseCurrency :: Currency
  cp_TargetCurrency :: Currency

record ConversionRequest =
  req_FromCurrency :: Currency
  req_ToCurrency :: Currency
  req_Amount :: float64
  req_Date :: Time

record ConversionResult =
  res_FromCurrency :: Currency
  res_ToCurrency :: Currency
  res_FromAmount :: float64
  res_ToAmount :: float64
  res_Rate :: float64
  res_Date :: Time

record HistoricalRateRequest =
  hreq_BaseCurrency :: Currency
  hreq_TargetCurrency :: Currency
  hreq_StartDate :: Time
  hreq_EndDate :: Time

record HistoricalRates =
  hr_BaseCurrency :: Currency
  hr_TargetCurrency :: Currency
  hr_Rates :: "(string, ExchangeRate) fmap"

section \<open>Errors\<close>

text \<open>
  The error values the program builds. The first six are the sentinels of package
  service. \<open>Wrap e err\<close> is \<^verbatim>\<open>fmt.Errorf("%w: %v", e, err)\<close>; \<open>RateNotFoundFor c\<close> is
  \<^verbatim>\<open>fmt.Errorf("rate not found for currency: %s", c)\<close> of the quote extractor; the
  next five are the failures of one HTTP exchange with the provider; \<open>Other\<close> stands
  for an error built outside the repository (for instance by a test double).
\<close>

datatype error =
    ErrInvalidCurrency
  | ErrDateOutOfRange
  | ErrInvalidDateRange
  | ErrRateNotFound
  | ErrExternalAPIFailure
  | ErrInvalidAmount
  | Wrap error error
  | RateNotFoundFor Currency
  | FailedToCreateRequest
  | FailedToSendRequest
  | NonOKStatus int
  | FailedToDecode
  | APIReportedFailure
  | FailedToFetchLatest error
  | Other string

section \<open>Rate provider client (package repository)\<close>

text \<open>
  \<open>latestRates\<close> is the memo of resolved latest rates, keyed by \<^verbatim>\<open>"BASE-TARGET"\<close>.
  The HTTP client, the logger and the mutex are not part of the state: an HTTP
  exchange is a function from the requested URL to its outcome, and every operation
  runs to completion on its own.
\<close>

record ExchangeAPI =
  baseURL :: string
  apiKey :: string
  latestRates :: "(string, ExchangeRate) fmap"

record exchangerateAPIResponse =
  Success :: bool
  Quotes :: "(string, float64) fmap"

text \<open>
  The outcome of one GET: the request could not be built, it could not be sent, or a
  response arrived with a status code and a body that decodes (\<open>Some\<close>) or does not.
\<close>

datatype http_outcome =
    NewRequestError
  | DoError
  | Response int "exchangerateAPIResponse option"

type_synonym HTTP = "string \<Rightarrow> http_outcome"

definition StatusOK :: int where
  "StatusOK = 200"

text \<open>
  The tail shared by the three branches of \<^verbatim>\<open>extractRate\<close>: the resolved rate is
  stored in the memo under \<^verbatim>\<open>"BASE-TARGET"\<close> and returned.
\<close>

definition storeLatest ::
  "CurrencyPair \<Rightarrow> ExchangeRate \<Rightarrow> ExchangeAPI \<Rightarrow> (error + ExchangeRate) \<times> ExchangeAPI" where
  "storeLatest pair exchangeRate e =
     (Inr exchangeRate,
      e\<lparr>latestRates :=
          fmupd (cp_BaseCurrency pair @ ''-'' @ cp_TargetCurrency pair) exchangeRate
            (latestRates e)\<rparr>)"

definition extractRate ::
  "Time \<Rightarrow> (string, float64) fmap \<Rightarrow> CurrencyPair \<Rightarrow> ExchangeAPI
     \<Rightarrow> (error + ExchangeRate) \<times> ExchangeAPI" where
  "extractRate now quotes pair e =
     (if cp_BaseCurrency pair = USD then
        (case fmlookup quotes (''USD'' @ cp_TargetCurrency pair) of
           None \<Rightarrow> (Inl (RateNotFoundFor (cp_TargetCurrency pair)), e)
         | Some rate \<Rightarrow>
             storeLatest pair
               \<lparr>BaseCurrency = cp_BaseCurrency pair, TargetCurrency = cp_TargetCurrency pair,
                Rate = rate, Date = Truncate now (24 * Hour), LastUpdated = now\<rparr> e)
      else if cp_TargetCurrency pair = USD then
        (case fmlookup quotes (''USD'' @ cp_BaseCurrency pair) of
           None \<Rightarrow> (Inl (RateNotFoundFor (cp_BaseCurrency pair)), e)
         | Some rate \<Rightarrow>
             storeLatest pair
               \<lparr>BaseCurrency = cp_BaseCurrency pair, TargetCurrency = cp_TargetCurrency pair,
                Rate = fdiv (Fin 1) rate, Date = Truncate now (24 * Hour),
                LastUpdated = now\<rparr> e)
      else
        (case fmlookup quotes (''USD'' @ cp_BaseCurrency pair) of
           None \<Rightarrow> (Inl (RateNotFoundFor (cp_BaseCurrency pair)), e)
         | Some baseRate \<Rightarrow>
             (case fmlookup quotes (''USD'' @ cp_TargetCurrency pair) of
                None \<Rightarrow> (Inl (RateNotFoundFor (cp_TargetCurrency pair)), e)
              | Some targetRate \<Rightarrow>
                  storeLatest pair
                    \<lparr>BaseCurrency = cp_BaseCurrency pair,
                     TargetCurrency = cp_TargetCurrency pair,
                     Rate = fdiv targetRate baseRate, Date = Truncate now (24 * Hour),
                     LastUpdated = now\<rparr> e)))"

definition extractHistoricalRate ::
  "Time \<Rightarrow> (string, float64) fmap \<Rightarrow> CurrencyPair \<Rightarrow> Time \<Rightarrow> error + ExchangeRate" where
  "extractHistoricalRate now quotes pair date =
     (if cp_BaseCurrency pair = USD then
        (case fmlookup quotes (''USD'' @ cp_TargetCurrency pair) of
           None \<Rightarrow> Inl (RateNotFoundFor (cp_TargetCurrency pair))
         | Some rate \<Rightarrow>
             Inr \<lparr>BaseCurrency = cp_BaseCurrency pair, TargetCurrency = cp_TargetCurrency pair,
                  Rate = rate, Date = date, LastUpdated = now\<rparr>)
      else if cp_TargetCurrency pair = USD then
        (case fmlookup quotes (''USD'' @ cp_BaseCurrency pair) of
           None \<Rightarrow> Inl (RateNotFoundFor (cp_BaseCurrency pair))
         | Some rate \<Rightarrow>
             Inr \<lparr>BaseCurrency = cp_BaseCurrency pair, TargetCurrency = cp_TargetCurrency pair,
                  Rate = fdiv (Fin 1) rate, Date = date, LastUpdated = now\<rparr>)
      else
        (case fmlookup quotes (''USD'' @ cp_BaseCurrency pair) of
           None \<Rightarrow> Inl (RateNotFoundFor (cp_BaseCurrency pair))
         | Some baseRate \<Rightarrow>
             (case fmlookup quotes (''USD'' @ cp_TargetCurrency pair) of
                None \<Rightarrow> Inl (RateNotFoundFor (cp_TargetCurrency pair))
              | Some targetRate \<Rightarrow>
                  Inr \<lparr>BaseCurrency = cp_BaseCurrency pair,
                       TargetCurrency = cp_TargetCurrency pair,
                       Rate = fdiv targetRate baseRate, Date = date, LastUpdated = now\<rparr>)))"

text \<open>
  The URL of an endpoint: \<^verbatim>\<open>base=USD\<close> is fixed, and the access key is appended when
  one is configured.
\<close>

definition withAccessKey :: "ExchangeAPI \<Rightarrow> string \<Rightarrow> string" where
  "withAccessKey e url = (if apiKey e \<noteq> [] then url @ ''&access_key='' @ apiKey e else url)"

text \<open>
  What both fetches do with the outcome of the GET, in the order of the source: request
  creation, sending, status code, decoding, the provider's own success flag.
\<close>

definition decodeQuotes :: "http_outcome \<Rightarrow> error + (string, float64) fmap" where
  "decodeQuotes outcome =
     (case outcome of
        NewRequestError \<Rightarrow> Inl FailedToCreateRequest
      | DoError \<Rightarrow> Inl FailedToSendRequest
      | Response statusCode body \<Rightarrow>
          if statusCode \<noteq> StatusOK then Inl (NonOKStatus statusCode)
          else (case body of
                  None \<Rightarrow> Inl FailedToDecode
                | Some apiResp \<Rightarrow>
                    if \<not> Success apiResp then Inl APIReportedFailure
                    else Inr (Quotes apiResp)))"

definition fetchAllLatestRates :: "HTTP \<Rightarrow> ExchangeAPI \<Rightarrow> error + (string, float64) fmap" where
  "fetchAllLatestRates http e =
     decodeQuotes (http (withAccessKey e (baseURL e @ ''/live?base=USD'')))"

definition FetchLatestRate ::
  "HTTP \<Rightarrow> Time \<Rightarrow> CurrencyPair \<Rightarrow> ExchangeAPI \<Rightarrow> (error + ExchangeRate) \<times> ExchangeAPI" where
  "FetchLatestRate http now pair e =
     (case fmlookup (latestRates e) (cp_BaseCurrency pair @ ''-'' @ cp_TargetCurrency pair) of
        Some rate \<Rightarrow> (Inr rate, e)
      | None \<Rightarrow>
          (case fetchAllLatestRates http e of
             Inl err \<Rightarrow> (Inl err, e)
           | Inr rates \<Rightarrow> extractRate now rates pair e))"

definition FetchHistoricalRate ::
  "HTTP \<Rightarrow> Time \<Rightarrow> CurrencyPair \<Rightarrow> Time \<Rightarrow> ExchangeAPI \<Rightarrow> error + ExchangeRate" where
  "FetchHistoricalRate http now pair date e =
     (case decodeQuotes
             (http (withAccessKey e
                (baseURL e @ ''/historical?date='' @ Format date @ ''&base=USD''))) of
        Inl err \<Rightarrow> Inl err
      | Inr quotes \<Rightarrow>
          extractHistoricalRate now quotes
            \<lparr>cp_BaseCurrency = cp_BaseCurrency pair, cp_TargetCurrency = cp_TargetCurrency pair\<rparr>
            date)"

text \<open>
  The loop of \<^verbatim>\<open>FetchHistoricalRates\<close>: while the current date is not after the end
  date, fetch that day; a failure is logged and the day skipped, a success is stored
  under the formatted date; either way the current date advances by one day.
\<close>

function FetchHistoricalRates_loop ::
  "HTTP \<Rightarrow> Time \<Rightarrow> ExchangeAPI \<Rightarrow> HistoricalRateRequest \<Rightarrow> Time \<Rightarrow> HistoricalRates
     \<Rightarrow> HistoricalRates" where
  "FetchHistoricalRates_loop http now e request currentDate result =
     (if \<not> After currentDate (hreq_EndDate request) then
        (case FetchHistoricalRate http now
                \<lparr>cp_BaseCurrency = hreq_BaseCurrency request,
                 cp_TargetCurrency = hreq_TargetCurrency request\<rparr> currentDate e of
           Inl err \<Rightarrow>
             FetchHistoricalRates_loop http now e request (AddDate_days currentDate 1) result
         | Inr rate \<Rightarrow>
             FetchHistoricalRates_loop http now e request (AddDate_days currentDate 1)
               (result\<lparr>hr_Rates := fmupd (Format currentDate) rate (hr_Rates result)\<rparr>))
      else result)"
  by pat_completeness auto
termination
  by (relation "measure (\<lambda>(http, now, e, request, currentDate, result).
                  nat (hreq_EndDate request - currentDate + 1))")
     (auto simp: After_def AddDate_days_def Hour_def)

declare FetchHistoricalRates_loop.simps [simp del]

definition FetchHistoricalRates ::
  "HTTP \<Rightarrow> Time \<Rightarrow> HistoricalRateRequest \<Rightarrow> ExchangeAPI \<Rightarrow> error + HistoricalRates" where
  "FetchHistoricalRates http now request e =
     Inr (FetchHistoricalRates_loop http now e request (hreq_StartDate request)
            \<lparr>hr_BaseCurrency = hreq_BaseCurrency request,
             hr_TargetCurrency = hreq_TargetCurrency request,
             hr_Rates = fmempty\<rparr>)"

text \<open>
  \<^verbatim>\<open>RefreshRates\<close> empties the memo, fetches one quote table and resolves every
  ordered pair of distinct supported currencies; a pair that does not resolve is logged
  and skipped.
\<close>

definition RefreshRates_targets ::
  "Time \<Rightarrow> (string, float64) fmap \<Rightarrow> Currency \<Rightarrow> ExchangeAPI \<Rightarrow> ExchangeAPI" where
  "RefreshRates_targets now rates base e =
     fold (\<lambda>target e'.
             if base = target then e'
             else snd (extractRate now rates
                         \<lparr>cp_BaseCurrency = base, cp_TargetCurrency = target\<rparr> e'))
       SupportedCurrencies e"

definition RefreshRates :: "HTTP \<Rightarrow> Time \<Rightarrow> ExchangeAPI \<Rightarrow> error option \<times> ExchangeAPI" where
  "RefreshRates http now e =
     (case fetchAllLatestRates http (e\<lparr>latestRates := fmempty\<rparr>) of
        Inl err \<Rightarrow> (Some (FailedToFetchLatest err), e\<lparr>latestRates := fmempty\<rparr>)
      | Inr rates \<Rightarrow>
          (None,
           fold (\<lambda>base e'. RefreshRates_targets now rates base e') SupportedCurrencies
             (e\<lparr>latestRates := fmempty\<rparr>)))"

section \<open>Rate cache (package cache)\<close>

record MemoryCache =
  cacheMap :: "(string, ExchangeRate) fmap"
  cacheTTL :: Duration

definition getCacheKey :: "CurrencyPair \<Rightarrow> Time \<Rightarrow> string" where
  "getCacheKey pair date =
     cp_BaseCurrency pair @ ''-'' @ cp_TargetCurrency pair @ ''-'' @ Format date"

text \<open>
  \<^verbatim>\<open>Get\<close> reads the clock once (\<^verbatim>\<open>time.Since\<close>) and never writes the map; the
  returned cache is the one it was given.
\<close>

definition MemoryCache_Get ::
  "Time \<Rightarrow> CurrencyPair \<Rightarrow> Time \<Rightarrow> MemoryCache \<Rightarrow> ExchangeRate option \<times> MemoryCache" where
  "MemoryCache_Get now pair date c =
     (case fmlookup (cacheMap c) (getCacheKey pair date) of
        Some rate \<Rightarrow>
          if cacheTTL c < Sub now (LastUpdated rate) then (None, c) else (Some rate, c)
      | None \<Rightarrow> (None, c))"

definition MemoryCache_Set :: "ExchangeRate \<Rightarrow> MemoryCache \<Rightarrow> error option \<times> MemoryCache" where
  "MemoryCache_Set rate c =
     (None,
      c\<lparr>cacheMap :=
          fmupd (getCacheKey \<lparr>cp_BaseCurrency = BaseCurrency rate,
                               cp_TargetCurrency = TargetCurrency rate\<rparr> (Date rate))
            rate (cacheMap c)\<rparr>)"

text \<open>
  \<^verbatim>\<open>ClearExpired\<close> collects the keys whose entry is older than the TTL at one clock
  reading, then deletes them. The keys of a map are distinct and the deletions commute,
  so the collected slice is modelled as a finite set.
\<close>

definition isExpired :: "Time \<Rightarrow> MemoryCache \<Rightarrow> string \<Rightarrow> bool" where
  "isExpired now c key =
     (case fmlookup (cacheMap c) key of
        None \<Rightarrow> False
      | Some rate \<Rightarrow> cacheTTL c < Sub now (LastUpdated rate))"

definition expiredKeys :: "Time \<Rightarrow> MemoryCache \<Rightarrow> string fset" where
  "expiredKeys now c = ffilter (isExpired now c) (fmdom (cacheMap c))"

definition MemoryCache_ClearExpired :: "Time \<Rightarrow> MemoryCache \<Rightarrow> error option \<times> MemoryCache" where
  "MemoryCache_ClearExpired now c =
     (None, c\<lparr>cacheMap := fmdrop_fset (expiredKeys now c) (cacheMap c)\<rparr>)"

section \<open>Ports (package ports)\<close>

text \<open>
  The service depends on two interfaces. An implementation works on a state of type
  \<open>'w\<close>, which every method takes and returns; the first argument of a method is the
  reading of the clock at the call. \<^verbatim>\<open>Get\<close> returns a pointer and a flag: the flag set
  is \<open>Some\<close>, and the pointer is then not nil. A method that returns a pointer and an
  error returns one of the two: \<open>Inl\<close> the error, \<open>Inr\<close> the value pointed to. The
  rates are never written through a pointer, so they are passed by value.
\<close>

record 'w RateCache =
  cache_Get :: "Time \<Rightarrow> CurrencyPair \<Rightarrow> Time \<Rightarrow> 'w \<Rightarrow> ExchangeRate option \<times> 'w"
  cache_Set :: "Time \<Rightarrow> ExchangeRate \<Rightarrow> 'w \<Rightarrow> error option \<times> 'w"
  cache_ClearExpired :: "Time \<Rightarrow> 'w \<Rightarrow> error option \<times> 'w"

record 'w RateRepository =
  repo_FetchLatestRate :: "Time \<Rightarrow> CurrencyPair \<Rightarrow> 'w \<Rightarrow> (error + ExchangeRate) \<times> 'w"
  repo_FetchHistoricalRate ::
    "Time \<Rightarrow> CurrencyPair \<Rightarrow> Time \<Rightarrow> 'w \<Rightarrow> (error + ExchangeRate) \<times> 'w"
  repo_FetchHistoricalRates ::
    "Time \<Rightarrow> HistoricalRateRequest \<Rightarrow> 'w \<Rightarrow> (error + HistoricalRates) \<times> 'w"
  repo_RefreshRates :: "Time \<Rightarrow> 'w \<Rightarrow> error option \<times> 'w"

section \<open>Exchange resolution service (package service)\<close>

record 'w ExchangeService =
  repository :: "'w RateRepository"
  cache :: "'w RateCache"

text \<open>
  Every operation of the service returns its result, the state of the ports after it,
  and the list of the port calls it made, in order: the list records which pairs reach
  the cache and the provider, and is empty when neither was called. One operation reads
  the clock as \<open>now\<close> throughout.
\<close>

datatype port_call =
    CacheGet CurrencyPair Time
  | CacheSet ExchangeRate
  | CacheClearExpired
  | RepoFetchLatestRate CurrencyPair
  | RepoFetchHistoricalRate CurrencyPair Time
  | RepoFetchHistoricalRates HistoricalRateRequest
  | RepoRefreshRates

definition validateDate :: "Time \<Rightarrow> Time \<Rightarrow> error option" where
  "validateDate now date =
     (if Before date (AddDate_days (Truncate now (24 * Hour)) (- 90))
      then Some ErrDateOutOfRange else None)"

definition validateDateRange :: "Time \<Rightarrow> Time \<Rightarrow> Time \<Rightarrow> error option" where
  "validateDateRange now startDate endDate =
     (case validateDate now startDate of
        Some err \<Rightarrow> Some err
      | None \<Rightarrow>
          (case validateDate now endDate of
             Some err \<Rightarrow> Some err
           | None \<Rightarrow> if After startDate endDate then Some ErrInvalidDateRange else None))"

definition GetLatestRate ::
  "'w ExchangeService \<Rightarrow> Time \<Rightarrow> Currency \<Rightarrow> Currency \<Rightarrow> 'w
     \<Rightarrow> (error + ExchangeRate) \<times> 'w \<times> port_call list" where
  "GetLatestRate s now from to w =
     (if \<not> IsSupported from \<or> \<not> IsSupported to then (Inl ErrInvalidCurrency, w, [])
      else
        (case cache_Get (cache s) now \<lparr>cp_BaseCurrency = from, cp_TargetCurrency = to\<rparr>
                (Truncate now (24 * Hour)) w of
           (Some rate, w1) \<Rightarrow>
             (Inr rate, w1,
              [CacheGet \<lparr>cp_BaseCurrency = from, cp_TargetCurrency = to\<rparr>
                 (Truncate now (24 * Hour))])
         | (None, w1) \<Rightarrow>
             (case repo_FetchLatestRate (repository s) now
                     \<lparr>cp_BaseCurrency = from, cp_TargetCurrency = to\<rparr> w1 of
                (Inl err, w2) \<Rightarrow>
                  (Inl (Wrap ErrExternalAPIFailure err), w2,
                   [CacheGet \<lparr>cp_BaseCurrency = from, cp_TargetCurrency = to\<rparr>
                      (Truncate now (24 * Hour)),
                    RepoFetchLatestRate \<lparr>cp_BaseCurrency = from, cp_TargetCurrency = to\<rparr>])
              | (Inr rate, w2) \<Rightarrow>
                  (Inr rate, snd (cache_Set (cache s) now rate w2),
                   [CacheGet \<lparr>cp_BaseCurrency = from, cp_TargetCurrency = to\<rparr>
                      (Truncate now (24 * Hour)),
                    RepoFetchLatestRate \<lparr>cp_BaseCurrency = from, cp_TargetCurrency = to\<rparr>,
                    CacheSet rate]))))"

definition GetHistoricalRate ::
  "'w ExchangeService \<Rightarrow> Time \<Rightarrow> Currency \<Rightarrow> Currency \<Rightarrow> Time \<Rightarrow> 'w
     \<Rightarrow> (error + ExchangeRate) \<times> 'w \<times> port_call list" where
  "GetHistoricalRate s now from to date w =
     (if \<not> IsSupported from \<or> \<not> IsSupported to then (Inl ErrInvalidCurrency, w, [])
      else
        (case validateDate now date of
           Some err \<Rightarrow> (Inl err, w, [])
         | None \<Rightarrow>
             (case cache_Get (cache s) now \<lparr>cp_BaseCurrency = from, cp_TargetCurrency = to\<rparr>
                     (Truncate date (24 * Hour)) w of
                (Some rate, w1) \<Rightarrow>
                  (Inr rate, w1,
                   [CacheGet \<lparr>cp_BaseCurrency = from, cp_TargetCurrency = to\<rparr>
                      (Truncate date (24 * Hour))])
              | (None, w1) \<Rightarrow>
                  (case repo_FetchHistoricalRate (repository s) now
                          \<lparr>cp_BaseCurrency = from, cp_TargetCurrency = to\<rparr>
                          (Truncate date (24 * Hour)) w1 of
                     (Inl err, w2) \<Rightarrow>
                       (Inl (Wrap ErrExternalAPIFailure err), w2,
                        [CacheGet \<lparr>cp_BaseCurrency = from, cp_TargetCurrency = to\<rparr>
                           (Truncate date (24 * Hour)),
                         RepoFetchHistoricalRate
                           \<lparr>cp_BaseCurrency = from, cp_TargetCurrency = to\<rparr>
                           (Truncate date (24 * Hour))])
                   | (Inr rate, w2) \<Rightarrow>
                       (Inr rate, snd (cache_Set (cache s) now rate w2),
                        [CacheGet \<lparr>cp_BaseCurrency = from, cp_TargetCurrency = to\<rparr>
                           (Truncate date (24 * Hour)),
                         RepoFetchHistoricalRate
                           \<lparr>cp_BaseCurrency = from, cp_TargetCurrency = to\<rparr>
                           (Truncate date (24 * Hour)),
                         CacheSet rate])))))"

definition GetHistoricalRates ::
  "'w ExchangeService \<Rightarrow> Time \<Rightarrow> HistoricalRateRequest \<Rightarrow> 'w
     \<Rightarrow> (error + HistoricalRates) \<times> 'w \<times> port_call list" where
  "GetHistoricalRates s now request w =
     (if \<not> IsSupported (hreq_BaseCurrency request) \<or>
         \<not> IsSupported (hreq_TargetCurrency request)
      then (Inl ErrInvalidCurrency, w, [])
      else
        (case validateDateRange now (hreq_StartDate request) (hreq_EndDate request) of
           Some err \<Rightarrow> (Inl err, w, [])
         | None \<Rightarrow>
             (case repo_FetchHistoricalRates (repository s) now request w of
                (Inl err, w1) \<Rightarrow>
                  (Inl (Wrap ErrExternalAPIFailure err), w1, [RepoFetchHistoricalRates request])
              | (Inr rates, w1) \<Rightarrow> (Inr rates, w1, [RepoFetchHistoricalRates request]))))"

text \<open>
  The rate a conversion uses: the historical one when the request carries a date (which
  is validated first), the latest one otherwise.
\<close>

definition resolveRate ::
  "'w ExchangeService \<Rightarrow> Time \<Rightarrow> ConversionRequest \<Rightarrow> 'w
     \<Rightarrow> (error + ExchangeRate) \<times> 'w \<times> port_call list" where
  "resolveRate s now request w =
     (if \<not> IsZero (req_Date request) then
        (case validateDate now (req_Date request) of
           Some err \<Rightarrow> (Inl err, w, [])
         | None \<Rightarrow>
             GetHistoricalRate s now (req_FromCurrency request) (req_ToCurrency request)
               (req_Date request) w)
      else GetLatestRate s now (req_FromCurrency request) (req_ToCurrency request) w)"

definition ConvertCurrency ::
  "'w ExchangeService \<Rightarrow> Time \<Rightarrow> ConversionRequest \<Rightarrow> 'w
     \<Rightarrow> (error + ConversionResult) \<times> 'w \<times> port_call list" where
  "ConvertCurrency s now request w =
     (if \<not> IsSupported (req_FromCurrency request) \<or> \<not> IsSupported (req_ToCurrency request)
      then (Inl ErrInvalidCurrency, w, [])
      else if fle (req_Amount request) (Fin 0) then (Inl ErrInvalidAmount, w, [])
      else
        (case resolveRate s now request w of
           (Inl err, w1, calls) \<Rightarrow> (Inl err, w1, calls)
         | (Inr rate, w1, calls) \<Rightarrow>
             (Inr \<lparr>res_FromCurrency = req_FromCurrency request,
                   res_ToCurrency = req_ToCurrency request,
                   res_FromAmount = req_Amount request,
                   res_ToAmount = fmul (req_Amount request) (Rate rate),
                   res_Rate = Rate rate,
                   res_Date = Date rate\<rparr>, w1, calls)))"

definition service_RefreshRates ::
  "'w ExchangeService \<Rightarrow> Time \<Rightarrow> 'w \<Rightarrow> error option \<times> 'w \<times> port_call list" where
  "service_RefreshRates s now w =
     (case repo_RefreshRates (repository s) now w of
        (Some err, w1) \<Rightarrow> (Some (Wrap ErrExternalAPIFailure err), w1, [RepoRefreshRates])
      | (None, w1) \<Rightarrow>
          (None, snd (cache_ClearExpired (cache s) now w1),
           [RepoRefreshRates, CacheClearExpired]))"

section \<open>The service as the server wires it (package main)\<close>

text \<open>
  The server builds one \<^verbatim>\<open>MemoryCache\<close> and one \<^verbatim>\<open>ExchangeAPI\<close> and hands both to
  the service. The state of the ports is the pair of the two; the HTTP exchanges with
  the provider are a parameter.
\<close>

record World =
  rateCache :: MemoryCache
  rateRepo :: ExchangeAPI

definition MemoryCache_port :: "World RateCache" where
  "MemoryCache_port =
     \<lparr>cache_Get = (\<lambda>now pair date w.
        (fst (MemoryCache_Get now pair date (rateCache w)),
         w\<lparr>rateCache := snd (MemoryCache_Get now pair date (rateCache w))\<rparr>)),
      cache_Set = (\<lambda>now rate w.
        (fst (MemoryCache_Set rate (rateCache w)),
         w\<lparr>rateCache := snd (MemoryCache_Set rate (rateCache w))\<rparr>)),
      cache_ClearExpired = (\<lambda>now w.
        (fst (MemoryCache_ClearExpired now (rateCache w)),
         w\<lparr>rateCache := snd (MemoryCache_ClearExpired now (rateCache w))\<rparr>))\<rparr>"

definition ExchangeAPI_port :: "HTTP \<Rightarrow> World RateRepository" where
  "ExchangeAPI_port http =
     \<lparr>repo_FetchLatestRate = (\<lambda>now pair w.
        (fst (FetchLatestRate http now pair (rateRepo w)),
         w\<lparr>rateRepo := snd (FetchLatestRate http now pair (rateRepo w))\<rparr>)),
      repo_FetchHistoricalRate = (\<lambda>now pair date w.
        (FetchHistoricalRate http now pair date (rateRepo w), w)),
      repo_FetchHistoricalRates = (\<lambda>now request w.
        (FetchHistoricalRates http now request (rateRepo w), w)),
      repo_RefreshRates = (\<lambda>now w.
        (fst (RefreshRates http now (rateRepo w)),
         w\<lparr>rateRepo := snd (RefreshRates http now (rateRepo w))\<rparr>))\<rparr>"

definition NewExchangeService :: "HTTP \<Rightarrow> World ExchangeService" where
  "NewExchangeService http =
     \<lparr>repository = ExchangeAPI_port http, cache = MemoryCache_port\<rparr>"

section \<open>Vocabulary of the properties, and a concrete deployment\<close>

text \<open>
  The days a range request covers: the start date and every 24 hours after it, up to
  the end date included. The list is empty when the start is after the end.
\<close>

definition daysInRange :: "Time \<Rightarrow> Time \<Rightarrow> Time list" where
  "daysInRange startDate endDate =
     map (\<lambda>k. startDate + int k * (24 * Hour))
       [0..<nat ((endDate - startDate) div (24 * Hour) + 1)]"

text \<open>
  What one iteration of the range loop does to the result map, used to relate the loop
  to the list of days.
\<close>

definition dayStep ::
  "HTTP \<Rightarrow> Time \<Rightarrow> ExchangeAPI \<Rightarrow> HistoricalRateRequest \<Rightarrow> Time
     \<Rightarrow> (string, ExchangeRate) fmap \<Rightarrow> (string, ExchangeRate) fmap" where
  "dayStep http now e request d m =
     (case FetchHistoricalRate http now
             \<lparr>cp_BaseCurrency = hreq_BaseCurrency request,
              cp_TargetCurrency = hreq_TargetCurrency request\<rparr> d e of
        Inl err \<Rightarrow> m
      | Inr rate \<Rightarrow> fmupd (Format d) rate m)"

text \<open>
  A deployment to evaluate the operations on: the clock reads 2025-01-04 12:00 UTC, the
  provider is configured without an access key, answers every request with the same
  quote table, and fails with status 500 on the historical request for 2025-01-02.
  The cache has a TTL of 30 minutes.
\<close>

definition exampleNow :: Time where
  "exampleNow = (739254 * 24 + 12) * Hour"

definition exampleToday :: Time where
  "exampleToday = 739254 * 24 * Hour"

definition exampleQuotes :: "(string, float64) fmap" where
  "exampleQuotes = fmap_of_list [(''USDINR'', Fin 82.5), (''USDEUR'', Fin 0.8)]"

definition zeroQuotes :: "(string, float64) fmap" where
  "zeroQuotes = fmap_of_list [(''USDINR'', Fin 82.5), (''USDJPY'', Fin 0)]"

definition exampleAPI :: ExchangeAPI where
  "exampleAPI =
     \<lparr>baseURL = ''https://api.exchangerate.host'', apiKey = [], latestRates = fmempty\<rparr>"

definition exampleHTTP :: HTTP where
  "exampleHTTP url =
     (if url = ''https://api.exchangerate.host/historical?date=2025-01-02&base=USD''
      then Response 500 None
      else Response 200 (Some \<lparr>Success = True, Quotes = exampleQuotes\<rparr>))"

definition exampleRate :: ExchangeRate where
  "exampleRate =
     \<lparr>BaseCurrency = USD, TargetCurrency = INR, Rate = Fin 82.5,
      Date = exampleToday, LastUpdated = exampleNow\<rparr>"

definition emptyCache :: MemoryCache where
  "emptyCache = \<lparr>cacheMap = fmempty, cacheTTL = 1800000000000\<rparr>"

definition exampleCache :: MemoryCache where
  "exampleCache = snd (MemoryCache_Set exampleRate emptyCache)"

definition emptyWorld :: World where
  "emptyWorld = \<lparr>rateCache = emptyCache, rateRepo = exampleAPI\<rparr>"

definition exampleWorld :: World where
  "exampleWorld = \<lparr>rateCache = exampleCache, rateRepo = exampleAPI\<rparr>"

text \<open>The range request of 2025-01-01 to 2025-01-03, by its three days.\<close>

definition exampleDay1 :: Time where
  "exampleDay1 = 739251 * 24 * Hour"

definition exampleDay2 :: Time where
  "exampleDay2 = 739252 * 24 * Hour"

definition exampleDay3 :: Time where
  "exampleDay3 = 739253 * 24 * Hour"

definition exampleRange :: HistoricalRateRequest where
  "exampleRange =
     \<lparr>hreq_BaseCurrency = USD, hreq_TargetCurrency = INR,
      hreq_StartDate = exampleDay1, hreq_EndDate = exampleDay3\<rparr>"

section \<open>Auxiliary facts\<close>

lemmas Format_eval = Format_def civil_def civil_era_def civil_year_def civil_month_def
  pad4_def pad2_def digit_def Hour_def

lemmas currency_eval = USD_def INR_def EUR_def JPY_def GBP_def IsSupported_def
  SupportedCurrencies_def

lemma flt_zero_not_fle: "flt (Fin 0) a \<Longrightarrow> \<not> fle a (Fin 0)"
  by (cases a) (auto simp: flt_def fle_def)

text \<open>
  Below the largest duration the saturation of \<open>Sub\<close> is invisible to the comparison
  with a TTL.
\<close>

lemma Sub_le_iff:
  "minDuration \<le> ttl \<Longrightarrow> ttl < maxDuration \<Longrightarrow> (Sub t u \<le> ttl) = (t - u \<le> ttl)"
  by (auto simp: Sub_def)

lemma example_today: "Format exampleToday = ''2025-01-04''"
  by (simp add: exampleToday_def Format_eval)

lemma example_key:
  "getCacheKey \<lparr>cp_BaseCurrency = USD, cp_TargetCurrency = INR\<rparr> exampleToday
     = ''USD-INR-2025-01-04''"
  by (simp add: getCacheKey_def example_today currency_eval)

lemma example_truncate: "Truncate exampleNow (24 * Hour) = exampleToday"
  by (simp add: Truncate_def exampleNow_def exampleToday_def Hour_def)

lemma example_supported:
  "IsSupported USD" "IsSupported INR" "\<not> IsSupported ''XYZ''"
  by (simp_all add: currency_eval)

lemma example_cached:
  "fmlookup (cacheMap exampleCache) ''USD-INR-2025-01-04'' = Some exampleRate"
  "cacheTTL exampleCache = 1800000000000"
  by (simp_all add: exampleCache_def emptyCache_def MemoryCache_Set_def exampleRate_def
        example_key)

lemma example_age:
  "Sub (exampleNow + 600000000000) (LastUpdated exampleRate) = 600000000000"
  "Sub (exampleNow + Hour) (LastUpdated exampleRate) = 3600000000000"
  by (simp_all add: Sub_def minDuration_def maxDuration_def exampleRate_def Hour_def)

section \<open>Quote table extractor\<close>

text \<open>
  C1. For a pair with base \<noteq> target, on any quote table: when the base is USD the rate
  is the quote of \<open>"USD" + target\<close>; when the target is USD it is 1 divided by the quote
  of \<open>"USD" + base\<close>; otherwise it is the quote of the target divided by the quote of the
  base. A required key that is absent gives the rate-not-found error naming the missing
  currency (the base first when both are absent). The same holds for the latest and for
  the historical extractor.
\<close>

theorem extract_resolves:
  assumes "cp_BaseCurrency pair \<noteq> cp_TargetCurrency pair"
  shows "(cp_BaseCurrency pair = USD \<longrightarrow>
            (\<forall>q. fmlookup quotes (''USD'' @ cp_TargetCurrency pair) = Some q \<longrightarrow>
               map_sum id Rate (fst (extractRate now quotes pair e)) = Inr q \<and>
               map_sum id Rate (extractHistoricalRate now quotes pair date) = Inr q) \<and>
            (fmlookup quotes (''USD'' @ cp_TargetCurrency pair) = None \<longrightarrow>
               fst (extractRate now quotes pair e) =
                 Inl (RateNotFoundFor (cp_TargetCurrency pair)) \<and>
               extractHistoricalRate now quotes pair date =
                 Inl (RateNotFoundFor (cp_TargetCurrency pair))))
       \<and> (cp_TargetCurrency pair = USD \<longrightarrow>
            (\<forall>q. fmlookup quotes (''USD'' @ cp_BaseCurrency pair) = Some q \<longrightarrow>
               map_sum id Rate (fst (extractRate now quotes pair e)) = Inr (fdiv (Fin 1) q) \<and>
               map_sum id Rate (extractHistoricalRate now quotes pair date) =
                 Inr (fdiv (Fin 1) q)) \<and>
            (fmlookup quotes (''USD'' @ cp_BaseCurrency pair) = None \<longrightarrow>
               fst (extractRate now quotes pair e) =
                 Inl (RateNotFoundFor (cp_BaseCurrency pair)) \<and>
               extractHistoricalRate now quotes pair date =
                 Inl (RateNotFoundFor (cp_BaseCurrency pair))))
       \<and> (cp_BaseCurrency pair \<noteq> USD \<and> cp_TargetCurrency pair \<noteq> USD \<longrightarrow>
            (\<forall>qb qt. fmlookup quotes (''USD'' @ cp_BaseCurrency pair) = Some qb \<and>
                     fmlookup quotes (''USD'' @ cp_TargetCurrency pair) = Some qt \<longrightarrow>
               map_sum id Rate (fst (extractRate now quotes pair e)) = Inr (fdiv qt qb) \<and>
               map_sum id Rate (extractHistoricalRate now quotes pair date) =
                 Inr (fdiv qt qb)) \<and>
            (fmlookup quotes (''USD'' @ cp_BaseCurrency pair) = None \<longrightarrow>
               fst (extractRate now quotes pair e) =
                 Inl (RateNotFoundFor (cp_BaseCurrency pair)) \<and>
               extractHistoricalRate now quotes pair date =
                 Inl (RateNotFoundFor (cp_BaseCurrency pair))) \<and>
            (fmlookup quotes (''USD'' @ cp_BaseCurrency pair) \<noteq> None \<and>
             fmlookup quotes (''USD'' @ cp_TargetCurrency pair) = None \<longrightarrow>
               fst (extractRate now quotes pair e) =
                 Inl (RateNotFoundFor (cp_TargetCurrency pair)) \<and>
               extractHistoricalRate now quotes pair date =
                 Inl (RateNotFoundFor (cp_TargetCurrency pair))))"
  using assms
  by (auto simp: extractRate_def extractHistoricalRate_def storeLatest_def
        split: option.splits)

theorem extract_resolves_witness:
  "map_sum id Rate
     (fst (extractRate exampleNow exampleQuotes
             \<lparr>cp_BaseCurrency = USD, cp_TargetCurrency = INR\<rparr> exampleAPI)) = Inr (Fin 82.5)
   \<and> map_sum id Rate
     (extractHistoricalRate exampleNow exampleQuotes
        \<lparr>cp_BaseCurrency = EUR, cp_TargetCurrency = USD\<rparr> 0) = Inr (Fin 1.25)
   \<and> map_sum id Rate
     (fst (extractRate exampleNow exampleQuotes
             \<lparr>cp_BaseCurrency = EUR, cp_TargetCurrency = INR\<rparr> exampleAPI)) = Inr (Fin 103.125)
   \<and> fst (extractRate exampleNow exampleQuotes
             \<lparr>cp_BaseCurrency = USD, cp_TargetCurrency = GBP\<rparr> exampleAPI)
       = Inl (RateNotFoundFor GBP)
   \<and> fst (extractRate exampleNow exampleQuotes
             \<lparr>cp_BaseCurrency = GBP, cp_TargetCurrency = USD\<rparr> exampleAPI)
       = Inl (RateNotFoundFor GBP)
   \<and> extractHistoricalRate exampleNow exampleQuotes
             \<lparr>cp_BaseCurrency = GBP, cp_TargetCurrency = JPY\<rparr> 0
       = Inl (RateNotFoundFor GBP)
   \<and> fst (extractRate exampleNow exampleQuotes
             \<lparr>cp_BaseCurrency = INR, cp_TargetCurrency = GBP\<rparr> exampleAPI)
       = Inl (RateNotFoundFor GBP)"
  using
    extract_resolves [where pair = "\<lparr>cp_BaseCurrency = USD, cp_TargetCurrency = INR\<rparr>"
      and quotes = exampleQuotes and now = exampleNow and e = exampleAPI and date = 0]
    extract_resolves [where pair = "\<lparr>cp_BaseCurrency = EUR, cp_TargetCurrency = USD\<rparr>"
      and quotes = exampleQuotes and now = exampleNow and e = exampleAPI and date = 0]
    extract_resolves [where pair = "\<lparr>cp_BaseCurrency = EUR, cp_TargetCurrency = INR\<rparr>"
      and quotes = exampleQuotes and now = exampleNow and e = exampleAPI and date = 0]
    extract_resolves [where pair = "\<lparr>cp_BaseCurrency = USD, cp_TargetCurrency = GBP\<rparr>"
      and quotes = exampleQuotes and now = exampleNow and e = exampleAPI and date = 0]
    extract_resolves [where pair = "\<lparr>cp_BaseCurrency = GBP, cp_TargetCurrency = USD\<rparr>"
      and quotes = exampleQuotes and now = exampleNow and e = exampleAPI and date = 0]
    extract_resolves [where pair = "\<lparr>cp_BaseCurrency = GBP, cp_TargetCurrency = JPY\<rparr>"
      and quotes = exampleQuotes and now = exampleNow and e = exampleAPI and date = 0]
    extract_resolves [where pair = "\<lparr>cp_BaseCurrency = INR, cp_TargetCurrency = GBP\<rparr>"
      and quotes = exampleQuotes and now = exampleNow and e = exampleAPI and date = 0]
  by (simp add: exampleQuotes_def USD_def INR_def EUR_def JPY_def GBP_def fdiv_def)

text \<open>
  C2 claims that a required anchor quote of exactly zero makes the extractor fail. It
  does not: for JPY to USD and for JPY to INR on a table that quotes USDJPY as 0, both
  extractors return a rate, and the rate is infinite.
\<close>

theorem zero_quote_counterexample:
  "fmlookup zeroQuotes (''USD'' @ JPY) = Some (Fin 0)
   \<and> fst (extractRate exampleNow zeroQuotes
            \<lparr>cp_BaseCurrency = JPY, cp_TargetCurrency = USD\<rparr> exampleAPI)
       \<noteq> Inl (RateNotFoundFor JPY)
   \<and> map_sum id Rate
       (fst (extractRate exampleNow zeroQuotes
               \<lparr>cp_BaseCurrency = JPY, cp_TargetCurrency = USD\<rparr> exampleAPI)) = Inr PosInf
   \<and> map_sum id Rate
       (extractHistoricalRate exampleNow zeroQuotes
          \<lparr>cp_BaseCurrency = JPY, cp_TargetCurrency = INR\<rparr> 0) = Inr PosInf"
  by (simp add: extractRate_def extractHistoricalRate_def storeLatest_def zeroQuotes_def
        USD_def INR_def JPY_def fdiv_def inf_of_def)

text \<open>
  C2, amended. When the quote of \<open>"USD" + base\<close> is present and is a zero, the extractors
  do not fail. With USD as target the rate is the infinity whose sign is that of the
  zero; for a cross rate whose target quote is present the rate is the IEEE quotient,
  which is an infinity or NaN. Only an absent key gives the rate-not-found error.
\<close>

theorem zero_quote_resolves:
  assumes "cp_BaseCurrency pair \<noteq> USD"
    and "fmlookup quotes (''USD'' @ cp_BaseCurrency pair) = Some qb"
    and "is_zero qb"
  shows "(cp_TargetCurrency pair = USD \<longrightarrow>
            map_sum id Rate (fst (extractRate now quotes pair e)) = Inr (inf_of (signbit qb)) \<and>
            map_sum id Rate (extractHistoricalRate now quotes pair date) =
              Inr (inf_of (signbit qb)))
       \<and> (cp_TargetCurrency pair \<noteq> USD \<longrightarrow>
            (\<forall>qt. fmlookup quotes (''USD'' @ cp_TargetCurrency pair) = Some qt \<longrightarrow>
               map_sum id Rate (fst (extractRate now quotes pair e)) = Inr (fdiv qt qb) \<and>
               map_sum id Rate (extractHistoricalRate now quotes pair date) =
                 Inr (fdiv qt qb) \<and>
               (is_inf (fdiv qt qb) \<or> fdiv qt qb = NaN)))"
  using assms
  by (cases qb)
     (auto simp: extractRate_def extractHistoricalRate_def storeLatest_def fdiv_def
        inf_of_def split: option.splits)

theorem zero_quote_resolves_witness:
  "map_sum id Rate
     (fst (extractRate exampleNow zeroQuotes
             \<lparr>cp_BaseCurrency = JPY, cp_TargetCurrency = USD\<rparr> exampleAPI)) = Inr PosInf
   \<and> map_sum id Rate
     (extractHistoricalRate exampleNow zeroQuotes
        \<lparr>cp_BaseCurrency = JPY, cp_TargetCurrency = INR\<rparr> 0) = Inr (fdiv (Fin 82.5) (Fin 0))
   \<and> is_inf (fdiv (Fin 82.5) (Fin 0))"
  using
    zero_quote_resolves [where pair = "\<lparr>cp_BaseCurrency = JPY, cp_TargetCurrency = USD\<rparr>"
      and quotes = zeroQuotes and qb = "Fin 0" and now = exampleNow and e = exampleAPI
      and date = 0]
    zero_quote_resolves [where pair = "\<lparr>cp_BaseCurrency = JPY, cp_TargetCurrency = INR\<rparr>"
      and quotes = zeroQuotes and qb = "Fin 0" and now = exampleNow and e = exampleAPI
      and date = 0]
  by (simp add: zeroQuotes_def USD_def INR_def JPY_def inf_of_def fdiv_def)

section \<open>Rate cache\<close>

text \<open>
  C3. \<open>Get\<close> returns a rate exactly when the map holds that rate under the key of the
  pair and the date and its age, the clock reading minus \<open>LastUpdated\<close>, is at most the
  TTL; it returns not-found exactly when there is no such entry (absent, or older than
  the TTL); and the cache after the read is the cache before it, so an expired entry
  stays in the map. The age is the duration \<^verbatim>\<open>time.Since\<close> computes; for a TTL below
  the largest duration it can be read as the plain difference of the two times.
\<close>

theorem get_hit_iff:
  "(fst (MemoryCache_Get now pair date c) = Some rate) =
     (fmlookup (cacheMap c) (getCacheKey pair date) = Some rate \<and>
      Sub now (LastUpdated rate) \<le> cacheTTL c)
   \<and> (fst (MemoryCache_Get now pair date c) = None) =
     (\<not> (\<exists>r. fmlookup (cacheMap c) (getCacheKey pair date) = Some r \<and>
              Sub now (LastUpdated r) \<le> cacheTTL c))
   \<and> snd (MemoryCache_Get now pair date c) = c
   \<and> (minDuration \<le> cacheTTL c \<and> cacheTTL c < maxDuration \<longrightarrow>
        (fst (MemoryCache_Get now pair date c) = Some rate) =
          (fmlookup (cacheMap c) (getCacheKey pair date) = Some rate \<and>
           now - LastUpdated rate \<le> cacheTTL c))"
proof -
  have hit: "(fst (MemoryCache_Get now pair date c) = Some rate) =
     (fmlookup (cacheMap c) (getCacheKey pair date) = Some rate \<and>
      Sub now (LastUpdated rate) \<le> cacheTTL c)"
    by (auto simp: MemoryCache_Get_def split: option.splits)
  have miss: "(fst (MemoryCache_Get now pair date c) = None) =
     (\<not> (\<exists>r. fmlookup (cacheMap c) (getCacheKey pair date) = Some r \<and>
              Sub now (LastUpdated r) \<le> cacheTTL c))"
    by (auto simp: MemoryCache_Get_def split: option.splits)
  have same: "snd (MemoryCache_Get now pair date c) = c"
    by (simp add: MemoryCache_Get_def split: option.splits)
  have plain: "(fst (MemoryCache_Get now pair date c) = Some rate) =
          (fmlookup (cacheMap c) (getCacheKey pair date) = Some rate \<and>
           now - LastUpdated rate \<le> cacheTTL c)"
    if "minDuration \<le> cacheTTL c \<and> cacheTTL c < maxDuration"
    using that by (simp add: hit Sub_le_iff)
  show ?thesis
    using hit miss same plain by blast
qed

theorem get_hit_iff_witness:
  "fst (MemoryCache_Get (exampleNow + 600000000000)
          \<lparr>cp_BaseCurrency = USD, cp_TargetCurrency = INR\<rparr> exampleToday exampleCache)
     = Some exampleRate
   \<and> fst (MemoryCache_Get (exampleNow + Hour)
          \<lparr>cp_BaseCurrency = USD, cp_TargetCurrency = INR\<rparr> exampleToday exampleCache)
     = None
   \<and> snd (MemoryCache_Get (exampleNow + Hour)
          \<lparr>cp_BaseCurrency = USD, cp_TargetCurrency = INR\<rparr> exampleToday exampleCache)
     = exampleCache
   \<and> fmlookup (cacheMap exampleCache) ''USD-INR-2025-01-04'' = Some exampleRate
   \<and> exampleNow + 600000000000 - LastUpdated exampleRate \<le> cacheTTL exampleCache
   \<and> \<not> exampleNow + Hour - LastUpdated exampleRate \<le> cacheTTL exampleCache"
  using
    get_hit_iff [where now = "exampleNow + 600000000000"
      and pair = "\<lparr>cp_BaseCurrency = USD, cp_TargetCurrency = INR\<rparr>"
      and date = exampleToday and c = exampleCache and rate = exampleRate]
    get_hit_iff [where now = "exampleNow + Hour"
      and pair = "\<lparr>cp_BaseCurrency = USD, cp_TargetCurrency = INR\<rparr>"
      and date = exampleToday and c = exampleCache and rate = exampleRate]
  by (simp add: example_key example_cached example_age minDuration_def maxDuration_def)
     (simp add: exampleRate_def Hour_def)

text \<open>
  C4. After \<open>Set rate\<close>, a \<open>Get\<close> for the base, target and date of that rate returns the
  rate, provided less than the TTL has elapsed since its \<open>LastUpdated\<close>.
\<close>

theorem set_then_get:
  assumes "Sub now (LastUpdated rate) < cacheTTL c"
  shows "MemoryCache_Get now
           \<lparr>cp_BaseCurrency = BaseCurrency rate, cp_TargetCurrency = TargetCurrency rate\<rparr>
           (Date rate) (snd (MemoryCache_Set rate c))
         = (Some rate, snd (MemoryCache_Set rate c))"
  using assms by (simp add: MemoryCache_Get_def MemoryCache_Set_def)

theorem set_then_get_witness:
  "Sub (exampleNow + 600000000000) (LastUpdated exampleRate) < cacheTTL emptyCache
   \<and> MemoryCache_Get (exampleNow + 600000000000)
        \<lparr>cp_BaseCurrency = USD, cp_TargetCurrency = INR\<rparr> exampleToday
        (snd (MemoryCache_Set exampleRate emptyCache))
      = (Some exampleRate, snd (MemoryCache_Set exampleRate emptyCache))"
proof -
  have h: "Sub (exampleNow + 600000000000) (LastUpdated exampleRate) < cacheTTL emptyCache"
    by (simp add: example_age emptyCache_def)
  have r: "BaseCurrency exampleRate = USD" "TargetCurrency exampleRate = INR"
    "Date exampleRate = exampleToday"
    by (simp_all add: exampleRate_def)
  show ?thesis
    using h set_then_get [OF h] by (simp add: r)
qed

text \<open>
  C5. At a fixed clock reading, sweeping twice leaves the cache that one sweep leaves.
\<close>

theorem clear_expired_idempotent:
  "snd (MemoryCache_ClearExpired now (snd (MemoryCache_ClearExpired now c)))
     = snd (MemoryCache_ClearExpired now c)"
proof -
  have "fmdrop_fset
          (expiredKeys now (c\<lparr>cacheMap := fmdrop_fset (expiredKeys now c) (cacheMap c)\<rparr>))
          (fmdrop_fset (expiredKeys now c) (cacheMap c))
        = fmdrop_fset (expiredKeys now c) (cacheMap c)"
    by (rule fmap_ext)
       (auto simp: expiredKeys_def isExpired_def fmlookup_dom_iff split: option.splits)
  then show ?thesis
    by (simp add: MemoryCache_ClearExpired_def)
qed

theorem clear_expired_idempotent_witness:
  "snd (MemoryCache_ClearExpired (exampleNow + Hour)
          (snd (MemoryCache_ClearExpired (exampleNow + Hour) exampleCache)))
     = snd (MemoryCache_ClearExpired (exampleNow + Hour) exampleCache)
   \<and> fmlookup (cacheMap exampleCache) ''USD-INR-2025-01-04'' = Some exampleRate
   \<and> fmlookup (cacheMap (snd (MemoryCache_ClearExpired (exampleNow + Hour) exampleCache)))
        ''USD-INR-2025-01-04'' = None"
  using clear_expired_idempotent [of "exampleNow + Hour" exampleCache]
  by (simp add: MemoryCache_ClearExpired_def expiredKeys_def isExpired_def example_cached
        example_age fmlookup_dom_iff)

section \<open>Exchange resolution service\<close>

text \<open>
  C6. With today the clock reading truncated to the UTC day: the date exactly 90 days
  before today passes \<open>validateDate\<close> and the date 91 days before today fails with the
  date-out-of-range error. For supported currencies the same boundary decides the
  service operations: at 91 days \<open>GetHistoricalRate\<close>, \<open>GetHistoricalRates\<close> (as start
  date) and a dated \<open>ConvertCurrency\<close> with a positive amount fail with that error
  before any port is called; at 90 days none of them fails with it.
\<close>

theorem date_window_boundary:
  "validateDate now (AddDate_days (Truncate now (24 * Hour)) (- 90)) = None
   \<and> validateDate now (AddDate_days (Truncate now (24 * Hour)) (- 91)) = Some ErrDateOutOfRange
   \<and> (IsSupported src \<and> IsSupported dst \<longrightarrow>
        GetHistoricalRate s now src dst (AddDate_days (Truncate now (24 * Hour)) (- 91)) w
          = (Inl ErrDateOutOfRange, w, [])
        \<and> fst (GetHistoricalRate s now src dst
                 (AddDate_days (Truncate now (24 * Hour)) (- 90)) w)
            \<noteq> Inl ErrDateOutOfRange
        \<and> GetHistoricalRates s now
            \<lparr>hreq_BaseCurrency = src, hreq_TargetCurrency = dst,
             hreq_StartDate = AddDate_days (Truncate now (24 * Hour)) (- 91),
             hreq_EndDate = endDate\<rparr> w
          = (Inl ErrDateOutOfRange, w, [])
        \<and> (AddDate_days (Truncate now (24 * Hour)) (- 90) \<le> endDate \<longrightarrow>
            fst (GetHistoricalRates s now
                   \<lparr>hreq_BaseCurrency = src, hreq_TargetCurrency = dst,
                    hreq_StartDate = AddDate_days (Truncate now (24 * Hour)) (- 90),
                    hreq_EndDate = endDate\<rparr> w)
              \<noteq> Inl ErrDateOutOfRange)
        \<and> (flt (Fin 0) amount \<and>
            \<not> IsZero (AddDate_days (Truncate now (24 * Hour)) (- 91)) \<longrightarrow>
            ConvertCurrency s now
              \<lparr>req_FromCurrency = src, req_ToCurrency = dst, req_Amount = amount,
               req_Date = AddDate_days (Truncate now (24 * Hour)) (- 91)\<rparr> w
              = (Inl ErrDateOutOfRange, w, []))
        \<and> fst (ConvertCurrency s now
                 \<lparr>req_FromCurrency = src, req_ToCurrency = dst, req_Amount = amount,
                  req_Date = AddDate_days (Truncate now (24 * Hour)) (- 90)\<rparr> w)
            \<noteq> Inl ErrDateOutOfRange)"
proof -
  let ?d90 = "AddDate_days (Truncate now (24 * Hour)) (- 90)"
  let ?d91 = "AddDate_days (Truncate now (24 * Hour)) (- 91)"
  have v90: "validateDate now ?d90 = None"
    by (simp add: validateDate_def Before_def)
  have v91: "validateDate now ?d91 = Some ErrDateOutOfRange"
    by (simp add: validateDate_def Before_def AddDate_days_def Hour_def)
  have vend: "validateDate now endDate = None" if "?d90 \<le> endDate"
    using that by (simp add: validateDate_def Before_def)
  have h91: "GetHistoricalRate s now src dst ?d91 w = (Inl ErrDateOutOfRange, w, [])"
    if "IsSupported src \<and> IsSupported dst"
    using that by (simp add: GetHistoricalRate_def v91)
  have h90: "fst (GetHistoricalRate s now src dst ?d90 w) \<noteq> Inl ErrDateOutOfRange"
    by (auto simp: GetHistoricalRate_def v90 split: prod.splits option.splits sum.splits)
  have l: "fst (GetLatestRate s now src dst w) \<noteq> Inl ErrDateOutOfRange"
    by (auto simp: GetLatestRate_def split: prod.splits option.splits sum.splits)
  have r91: "GetHistoricalRates s now
            \<lparr>hreq_BaseCurrency = src, hreq_TargetCurrency = dst,
             hreq_StartDate = ?d91, hreq_EndDate = endDate\<rparr> w
          = (Inl ErrDateOutOfRange, w, [])"
    if "IsSupported src \<and> IsSupported dst"
    using that by (simp add: GetHistoricalRates_def validateDateRange_def v91)
  have r90: "fst (GetHistoricalRates s now
                   \<lparr>hreq_BaseCurrency = src, hreq_TargetCurrency = dst,
                    hreq_StartDate = ?d90, hreq_EndDate = endDate\<rparr> w)
              \<noteq> Inl ErrDateOutOfRange" if "?d90 \<le> endDate"
    using that vend [OF that]
    by (auto simp: GetHistoricalRates_def validateDateRange_def v90 After_def
          split: prod.splits option.splits sum.splits)
  have c91: "ConvertCurrency s now
              \<lparr>req_FromCurrency = src, req_ToCurrency = dst, req_Amount = amount,
               req_Date = ?d91\<rparr> w
              = (Inl ErrDateOutOfRange, w, [])"
    if "IsSupported src \<and> IsSupported dst" and "flt (Fin 0) amount \<and> \<not> IsZero ?d91"
    using that flt_zero_not_fle [of amount]
    by (simp add: ConvertCurrency_def resolveRate_def v91)
  have c90: "fst (ConvertCurrency s now
                 \<lparr>req_FromCurrency = src, req_ToCurrency = dst, req_Amount = amount,
                  req_Date = ?d90\<rparr> w) \<noteq> Inl ErrDateOutOfRange"
    using h90 l
    by (auto simp: ConvertCurrency_def resolveRate_def v90 split: prod.splits sum.splits)
  show ?thesis
    using v90 v91 h91 h90 r91 r90 c91 c90 by blast
qed

theorem date_window_boundary_witness:
  "validateDate exampleNow (AddDate_days (Truncate exampleNow (24 * Hour)) (- 90)) = None
   \<and> validateDate exampleNow (AddDate_days (Truncate exampleNow (24 * Hour)) (- 91))
       = Some ErrDateOutOfRange
   \<and> Format (AddDate_days (Truncate exampleNow (24 * Hour)) (- 90)) = ''2024-10-06''
   \<and> Format (AddDate_days (Truncate exampleNow (24 * Hour)) (- 91)) = ''2024-10-05''
   \<and> GetHistoricalRate (NewExchangeService exampleHTTP) exampleNow USD INR
        (AddDate_days (Truncate exampleNow (24 * Hour)) (- 91)) emptyWorld
       = (Inl ErrDateOutOfRange, emptyWorld, [])
   \<and> fst (GetHistoricalRate (NewExchangeService exampleHTTP) exampleNow USD INR
             (AddDate_days (Truncate exampleNow (24 * Hour)) (- 90)) emptyWorld)
       \<noteq> Inl ErrDateOutOfRange
   \<and> GetHistoricalRates (NewExchangeService exampleHTTP) exampleNow
        \<lparr>hreq_BaseCurrency = USD, hreq_TargetCurrency = INR,
         hreq_StartDate = AddDate_days (Truncate exampleNow (24 * Hour)) (- 91),
         hreq_EndDate = exampleToday\<rparr> emptyWorld
       = (Inl ErrDateOutOfRange, emptyWorld, [])
   \<and> fst (GetHistoricalRates (NewExchangeService exampleHTTP) exampleNow
             \<lparr>hreq_BaseCurrency = USD, hreq_TargetCurrency = INR,
              hreq_StartDate = AddDate_days (Truncate exampleNow (24 * Hour)) (- 90),
              hreq_EndDate = exampleToday\<rparr> emptyWorld)
       \<noteq> Inl ErrDateOutOfRange
   \<and> ConvertCurrency (NewExchangeService exampleHTTP) exampleNow
        \<lparr>req_FromCurrency = USD, req_ToCurrency = INR, req_Amount = Fin 100,
         req_Date = AddDate_days (Truncate exampleNow (24 * Hour)) (- 91)\<rparr> emptyWorld
       = (Inl ErrDateOutOfRange, emptyWorld, [])
   \<and> fst (ConvertCurrency (NewExchangeService exampleHTTP) exampleNow
             \<lparr>req_FromCurrency = USD, req_ToCurrency = INR, req_Amount = Fin 100,
              req_Date = AddDate_days (Truncate exampleNow (24 * Hour)) (- 90)\<rparr> emptyWorld)
       \<noteq> Inl ErrDateOutOfRange"
proof -
  have f90: "Format (AddDate_days (Truncate exampleNow (24 * Hour)) (- 90)) = ''2024-10-06''"
    by (simp add: Truncate_def exampleNow_def AddDate_days_def Format_eval)
  have f91: "Format (AddDate_days (Truncate exampleNow (24 * Hour)) (- 91)) = ''2024-10-05''"
    by (simp add: Truncate_def exampleNow_def AddDate_days_def Format_eval)
  have nz: "\<not> IsZero (AddDate_days (Truncate exampleNow (24 * Hour)) (- 91))"
    by (simp add: IsZero_def Truncate_def exampleNow_def AddDate_days_def Hour_def)
  have le: "AddDate_days (Truncate exampleNow (24 * Hour)) (- 90) \<le> exampleToday"
    unfolding example_truncate by (simp add: AddDate_days_def Hour_def)
  show ?thesis
    using
      date_window_boundary [where now = exampleNow and s = "NewExchangeService exampleHTTP"
        and src = USD and dst = INR and w = emptyWorld and amount = "Fin 100"
        and endDate = exampleToday]
    by (simp add: example_supported flt_def f90 f91 nz le)
qed

text \<open>
  C7. A conversion between supported currencies with an amount greater than zero whose
  rate resolves to \<open>r\<close> returns the requested currencies, the amount as the source
  amount, the amount times the rate of \<open>r\<close> as the target amount, the rate of \<open>r\<close> and
  the date of \<open>r\<close>.
\<close>

theorem convert_success:
  assumes "IsSupported (req_FromCurrency request)" and "IsSupported (req_ToCurrency request)"
    and "flt (Fin 0) (req_Amount request)"
    and "resolveRate s now request w = (Inr r, w', calls)"
  shows "ConvertCurrency s now request w =
           (Inr \<lparr>res_FromCurrency = req_FromCurrency request,
                 res_ToCurrency = req_ToCurrency request,
                 res_FromAmount = req_Amount request,
                 res_ToAmount = fmul (req_Amount request) (Rate r),
                 res_Rate = Rate r,
                 res_Date = Date r\<rparr>, w', calls)"
  using assms flt_zero_not_fle [of "req_Amount request"]
  by (simp add: ConvertCurrency_def)

text \<open>
  The example of the claim: 100 USD to INR, with the rate 82.5 in the cache, is 8250.
\<close>

theorem convert_success_witness:
  "resolveRate (NewExchangeService exampleHTTP) (exampleNow + 600000000000)
     \<lparr>req_FromCurrency = USD, req_ToCurrency = INR, req_Amount = Fin 100, req_Date = 0\<rparr>
     exampleWorld
     = (Inr exampleRate, exampleWorld,
        [CacheGet \<lparr>cp_BaseCurrency = USD, cp_TargetCurrency = INR\<rparr> exampleToday])
   \<and> ConvertCurrency (NewExchangeService exampleHTTP) (exampleNow + 600000000000)
     \<lparr>req_FromCurrency = USD, req_ToCurrency = INR, req_Amount = Fin 100, req_Date = 0\<rparr>
     exampleWorld
     = (Inr \<lparr>res_FromCurrency = USD, res_ToCurrency = INR, res_FromAmount = Fin 100,
             res_ToAmount = Fin 8250, res_Rate = Fin 82.5, res_Date = exampleToday\<rparr>,
        exampleWorld,
        [CacheGet \<lparr>cp_BaseCurrency = USD, cp_TargetCurrency = INR\<rparr> exampleToday])"
proof -
  have t: "Truncate (exampleNow + 600000000000) (24 * Hour) = exampleToday"
    by (simp add: Truncate_def exampleNow_def exampleToday_def Hour_def)
  have g: "MemoryCache_Get (exampleNow + 600000000000)
             \<lparr>cp_BaseCurrency = USD, cp_TargetCurrency = INR\<rparr> exampleToday exampleCache
           = (Some exampleRate, exampleCache)"
    by (simp add: MemoryCache_Get_def example_key example_cached example_age)
  have r: "resolveRate (NewExchangeService exampleHTTP) (exampleNow + 600000000000)
     \<lparr>req_FromCurrency = USD, req_ToCurrency = INR, req_Amount = Fin 100, req_Date = 0\<rparr>
     exampleWorld
     = (Inr exampleRate, exampleWorld,
        [CacheGet \<lparr>cp_BaseCurrency = USD, cp_TargetCurrency = INR\<rparr> exampleToday])"
    by (simp add: resolveRate_def IsZero_def GetLatestRate_def example_supported t g
          NewExchangeService_def MemoryCache_port_def exampleWorld_def)
  have m: "fmul (Fin 100) (Rate exampleRate) = Fin 8250" "Rate exampleRate = Fin 82.5"
    "Date exampleRate = exampleToday"
    by (simp_all add: exampleRate_def fmul_def)
  show ?thesis
    using r convert_success [OF _ _ _ r]
    by (simp add: example_supported flt_def m fmul_def)
qed

text \<open>
  C8. Whatever the ports and their state: a conversion with an unsupported currency
  fails with the invalid-currency error, whatever the amount; one with supported
  currencies and an amount that is less than or equal to zero fails with the
  invalid-amount error. In both cases the state of the ports is unchanged and no port
  was called.
\<close>

theorem convert_validation_order:
  "(\<not> IsSupported (req_FromCurrency request) \<or> \<not> IsSupported (req_ToCurrency request) \<longrightarrow>
      ConvertCurrency s now request w = (Inl ErrInvalidCurrency, w, []))
   \<and> (IsSupported (req_FromCurrency request) \<and> IsSupported (req_ToCurrency request) \<and>
      fle (req_Amount request) (Fin 0) \<longrightarrow>
      ConvertCurrency s now request w = (Inl ErrInvalidAmount, w, []))"
  by (simp add: ConvertCurrency_def)

theorem convert_validation_order_witness:
  "ConvertCurrency (NewExchangeService exampleHTTP) exampleNow
     \<lparr>req_FromCurrency = USD, req_ToCurrency = INR, req_Amount = Fin (- 100), req_Date = 0\<rparr>
     exampleWorld
     = (Inl ErrInvalidAmount, exampleWorld, [])
   \<and> ConvertCurrency (NewExchangeService exampleHTTP) exampleNow
     \<lparr>req_FromCurrency = ''XYZ'', req_ToCurrency = INR, req_Amount = Fin (- 100),
      req_Date = 0\<rparr> exampleWorld
     = (Inl ErrInvalidCurrency, exampleWorld, [])
   \<and> ConvertCurrency (NewExchangeService exampleHTTP) exampleNow
     \<lparr>req_FromCurrency = USD, req_ToCurrency = INR, req_Amount = NegZero, req_Date = 0\<rparr>
     exampleWorld
     = (Inl ErrInvalidAmount, exampleWorld, [])"
  using
    convert_validation_order [where s = "NewExchangeService exampleHTTP" and now = exampleNow
      and w = exampleWorld and request =
        "\<lparr>req_FromCurrency = USD, req_ToCurrency = INR, req_Amount = Fin (- 100),
          req_Date = 0\<rparr>"]
    convert_validation_order [where s = "NewExchangeService exampleHTTP" and now = exampleNow
      and w = exampleWorld and request =
        "\<lparr>req_FromCurrency = ''XYZ'', req_ToCurrency = INR, req_Amount = Fin (- 100),
          req_Date = 0\<rparr>"]
    convert_validation_order [where s = "NewExchangeService exampleHTTP" and now = exampleNow
      and w = exampleWorld and request =
        "\<lparr>req_FromCurrency = USD, req_ToCurrency = INR, req_Amount = NegZero,
          req_Date = 0\<rparr>"]
  by (simp add: example_supported fle_def)

section \<open>Historical range\<close>

lemma le_div_iff_int:
  assumes "0 < (D::int)"
  shows "(k \<le> a div D) = (k * D \<le> a)"
proof
  assume "k \<le> a div D"
  then have "k * D \<le> a div D * D"
    using assms by (simp add: mult_right_mono)
  moreover have "a div D * D + a mod D = a"
    by simp
  moreover have "0 \<le> a mod D"
    using assms by simp
  ultimately show "k * D \<le> a"
    by linarith
next
  assume "k * D \<le> a"
  then have "k * D div D \<le> a div D"
    using assms by (rule zdiv_mono1)
  then show "k \<le> a div D"
    using assms by simp
qed

text \<open>
  The days of a range are the start date plus a whole number of days, not after the
  end date.
\<close>

lemma set_daysInRange:
  "set (daysInRange startDate endDate) =
     {d. \<exists>k::nat. d = startDate + int k * (24 * Hour) \<and> d \<le> endDate}"
proof -
  define D where "D = 24 * Hour"
  define n where "n = nat ((endDate - startDate) div D + 1)"
  have D: "0 < D"
    by (simp add: D_def Hour_def)
  have idx: "(k < n) = (startDate + int k * D \<le> endDate)" for k
  proof -
    have "(k < n) = (int k < (endDate - startDate) div D + 1)"
      by (simp add: n_def zless_nat_eq_int_zless)
    also have "\<dots> = (int k \<le> (endDate - startDate) div D)"
      by linarith
    also have "\<dots> = (int k * D \<le> endDate - startDate)"
      by (rule le_div_iff_int [OF D])
    also have "\<dots> = (startDate + int k * D \<le> endDate)"
      by linarith
    finally show ?thesis .
  qed
  have "set (map (\<lambda>k. startDate + int k * D) [0..<n]) =
          {d. \<exists>k::nat. d = startDate + int k * D \<and> d \<le> endDate}"
  proof (intro set_eqI iffI)
    fix d
    assume "d \<in> set (map (\<lambda>k. startDate + int k * D) [0..<n])"
    then obtain k where "k < n" and "d = startDate + int k * D"
      by auto
    then show "d \<in> {d. \<exists>k::nat. d = startDate + int k * D \<and> d \<le> endDate}"
      using idx [of k] by blast
  next
    fix d
    assume "d \<in> {d. \<exists>k::nat. d = startDate + int k * D \<and> d \<le> endDate}"
    then obtain k :: nat where k: "d = startDate + int k * D" and "d \<le> endDate"
      by blast
    then have "k < n"
      using idx [of k] by simp
    then show "d \<in> set (map (\<lambda>k. startDate + int k * D) [0..<n])"
      using k by (simp add: image_iff) (metis atLeastLessThan_iff zero_le)
  qed
  then show ?thesis
    unfolding daysInRange_def D_def n_def .
qed

lemma daysInRange_Nil: "endDate < startDate \<Longrightarrow> daysInRange startDate endDate = []"
proof -
  assume "endDate < startDate"
  then have "(endDate - startDate) div (24 * Hour) < 0"
    by (simp add: Hour_def div_neg_pos_less0)
  then show ?thesis
    by (simp add: daysInRange_def)
qed

lemma daysInRange_Cons:
  assumes "startDate \<le> endDate"
  shows "daysInRange startDate endDate =
           startDate # daysInRange (startDate + 24 * Hour) endDate"
proof -
  let ?D = "24 * Hour"
  have D: "0 < ?D"
    by (simp add: Hour_def)
  have q: "0 \<le> (endDate - startDate) div ?D"
    using assms D by (simp add: pos_imp_zdiv_nonneg_iff)
  have "endDate - (startDate + ?D) = (endDate - startDate) + (- 1) * ?D"
    by simp
  then have shift: "(endDate - (startDate + ?D)) div ?D = (endDate - startDate) div ?D - 1"
    using D by (metis div_mult_self1 less_irrefl add.commute uminus_add_conv_diff)
  have n: "nat ((endDate - startDate) div ?D + 1) =
             Suc (nat ((endDate - (startDate + ?D)) div ?D + 1))"
    using q by (simp add: shift nat_add_distrib)
  show ?thesis
    unfolding daysInRange_def n
    by (simp add: upt_conv_Cons map_Suc_upt [symmetric] del: upt_Suc)
       (simp add: algebra_simps comp_def)
qed

lemma dayStep_Inl:
  "FetchHistoricalRate http now
     \<lparr>cp_BaseCurrency = hreq_BaseCurrency request,
      cp_TargetCurrency = hreq_TargetCurrency request\<rparr> d e = Inl err \<Longrightarrow>
   dayStep http now e request d m = m"
  by (simp add: dayStep_def)

lemma dayStep_Inr:
  "FetchHistoricalRate http now
     \<lparr>cp_BaseCurrency = hreq_BaseCurrency request,
      cp_TargetCurrency = hreq_TargetCurrency request\<rparr> d e = Inr rate \<Longrightarrow>
   dayStep http now e request d m = fmupd (Format d) rate m"
  by (simp add: dayStep_def)

text \<open>The loop runs \<open>dayStep\<close> over the days of the range, in order.\<close>

lemma loop_fold:
  "FetchHistoricalRates_loop http now e request cur result =
     result\<lparr>hr_Rates :=
       fold (dayStep http now e request) (daysInRange cur (hreq_EndDate request))
         (hr_Rates result)\<rparr>"
proof (induction http now e request cur result rule: FetchHistoricalRates_loop.induct)
  case (1 http now e request currentDate result)
  let ?pair = "\<lparr>cp_BaseCurrency = hreq_BaseCurrency request,
                 cp_TargetCurrency = hreq_TargetCurrency request\<rparr>"
  let ?next = "AddDate_days currentDate 1"
  show ?case
  proof (cases "After currentDate (hreq_EndDate request)")
    case True
    then show ?thesis
      by (subst FetchHistoricalRates_loop.simps) (simp add: After_def daysInRange_Nil)
  next
    case False
    then have le: "currentDate \<le> hreq_EndDate request"
      by (simp add: After_def)
    have days: "daysInRange currentDate (hreq_EndDate request) =
                  currentDate # daysInRange ?next (hreq_EndDate request)"
      using daysInRange_Cons [OF le] by (simp add: AddDate_days_def)
    show ?thesis
    proof (cases "FetchHistoricalRate http now ?pair currentDate e")
      case (Inl err)
      have "FetchHistoricalRates_loop http now e request currentDate result =
              FetchHistoricalRates_loop http now e request ?next result"
        by (subst FetchHistoricalRates_loop.simps) (simp add: False Inl)
      also have "\<dots> = result\<lparr>hr_Rates :=
          fold (dayStep http now e request) (daysInRange ?next (hreq_EndDate request))
            (hr_Rates result)\<rparr>"
        by (rule 1(1) [OF False Inl])
      finally show ?thesis
        by (simp add: days dayStep_Inl [OF Inl])
    next
      case (Inr rate)
      let ?result' = "result\<lparr>hr_Rates := fmupd (Format currentDate) rate (hr_Rates result)\<rparr>"
      have "FetchHistoricalRates_loop http now e request currentDate result =
              FetchHistoricalRates_loop http now e request ?next ?result'"
        by (subst FetchHistoricalRates_loop.simps) (simp add: False Inr)
      also have "\<dots> = ?result'\<lparr>hr_Rates :=
          fold (dayStep http now e request) (daysInRange ?next (hreq_EndDate request))
            (hr_Rates ?result')\<rparr>"
        by (rule 1(2) [OF False Inr])
      finally show ?thesis
        by (simp add: days dayStep_Inr [OF Inr])
    qed
  qed
qed

lemma fold_dayStep_dom:
  "fmdom' (fold (dayStep http now e request) ds m) =
     fmdom' m \<union>
     Format ` {d \<in> set ds.
                 \<not> isl (FetchHistoricalRate http now
                   \<lparr>cp_BaseCurrency = hreq_BaseCurrency request,
                    cp_TargetCurrency = hreq_TargetCurrency request\<rparr> d e)}"
proof (induction ds arbitrary: m)
  case Nil
  then show ?case by simp
next
  case (Cons x xs)
  let ?F = "\<lambda>d. FetchHistoricalRate http now
                   \<lparr>cp_BaseCurrency = hreq_BaseCurrency request,
                    cp_TargetCurrency = hreq_TargetCurrency request\<rparr> d e"
  have step: "fmdom' (fold (dayStep http now e request) (x # xs) m) =
                fmdom' (dayStep http now e request x m) \<union>
                Format ` {d \<in> set xs. \<not> isl (?F d)}"
    using Cons.IH [of "dayStep http now e request x m"] by simp
  show ?case
  proof (cases "?F x")
    case (Inl err)
    then have "{d \<in> set (x # xs). \<not> isl (?F d)} = {d \<in> set xs. \<not> isl (?F d)}"
      by auto
    then show ?thesis
      unfolding step by (simp only: dayStep_Inl [OF Inl])
  next
    case (Inr rate)
    then have "{d \<in> set (x # xs). \<not> isl (?F d)} = insert x {d \<in> set xs. \<not> isl (?F d)}"
      by auto
    then show ?thesis
      unfolding step by (simp only: dayStep_Inr [OF Inr]) simp
  qed
qed

lemma fold_dayStep_other:
  "k \<notin> Format ` set ds \<Longrightarrow>
   fmlookup (fold (dayStep http now e request) ds m) k = fmlookup m k"
proof (induction ds arbitrary: m)
  case Nil
  then show ?case by simp
next
  case (Cons x xs)
  then show ?case
    by (cases "FetchHistoricalRate http now
             \<lparr>cp_BaseCurrency = hreq_BaseCurrency request,
              cp_TargetCurrency = hreq_TargetCurrency request\<rparr> x e")
       (auto simp: dayStep_Inl dayStep_Inr)
qed

lemma fold_dayStep_value:
  "inj_on Format (set ds) \<Longrightarrow> d \<in> set ds \<Longrightarrow>
   fmlookup (fold (dayStep http now e request) ds m) (Format d) =
     (case FetchHistoricalRate http now
             \<lparr>cp_BaseCurrency = hreq_BaseCurrency request,
              cp_TargetCurrency = hreq_TargetCurrency request\<rparr> d e of
        Inl err \<Rightarrow> fmlookup m (Format d)
      | Inr rate \<Rightarrow> Some rate)"
proof (induction ds arbitrary: m)
  case Nil
  then show ?case by simp
next
  case (Cons x xs)
  let ?F = "\<lambda>d. FetchHistoricalRate http now
                   \<lparr>cp_BaseCurrency = hreq_BaseCurrency request,
                    cp_TargetCurrency = hreq_TargetCurrency request\<rparr> d e"
  have inj: "inj_on Format (set xs)"
    using Cons.prems(1) by (simp add: inj_on_def)
  show ?case
  proof (cases "d \<in> set xs")
    case True
    have "fmlookup (dayStep http now e request x m) (Format d) = fmlookup m (Format d)"
      if "?F d = Inl err" for err
    proof (cases "x = d")
      case True
      with that show ?thesis
        by (simp add: dayStep_Inl)
    next
      case False
      with Cons.prems have "Format x \<noteq> Format d"
        by (auto simp: inj_on_def)
      then show ?thesis
        by (cases "?F x") (auto simp: dayStep_Inl dayStep_Inr)
    qed
    then show ?thesis
      using Cons.IH [OF inj True] by (auto split: sum.splits)
  next
    case False
    with Cons.prems have dx: "d = x"
      by simp
    have "Format d \<notin> Format ` set xs"
      using Cons.prems(1) False dx by (auto simp: inj_on_def)
    then show ?thesis
      unfolding dx
      by (cases "?F x") (simp_all add: fold_dayStep_other dayStep_Inl dayStep_Inr)
  qed
qed

text \<open>
  C9. A range request never returns an error. Its result holds an entry for exactly the
  days of the closed range whose fetch succeeded: the keys of the result are the
  formatted dates of those days, so a day whose fetch fails is left out and nothing
  else is. Where the days of the range format to distinct keys, the entry of each day
  is the rate fetched for that day, and a failed day has none.
\<close>

theorem range_best_effort:
  "\<exists>res. FetchHistoricalRates http now request e = Inr res \<and>
      hr_BaseCurrency res = hreq_BaseCurrency request \<and>
      hr_TargetCurrency res = hreq_TargetCurrency request \<and>
      fmdom' (hr_Rates res) =
        Format ` {d \<in> set (daysInRange (hreq_StartDate request) (hreq_EndDate request)).
                    \<not> isl (FetchHistoricalRate http now
                      \<lparr>cp_BaseCurrency = hreq_BaseCurrency request,
                       cp_TargetCurrency = hreq_TargetCurrency request\<rparr> d e)} \<and>
      (inj_on Format (set (daysInRange (hreq_StartDate request) (hreq_EndDate request))) \<longrightarrow>
       (\<forall>d \<in> set (daysInRange (hreq_StartDate request) (hreq_EndDate request)).
          fmlookup (hr_Rates res) (Format d) =
            (case FetchHistoricalRate http now
                      \<lparr>cp_BaseCurrency = hreq_BaseCurrency request,
                       cp_TargetCurrency = hreq_TargetCurrency request\<rparr> d e of
               Inl err \<Rightarrow> None
             | Inr rate \<Rightarrow> Some rate)))"
  by (auto simp: FetchHistoricalRates_def loop_fold fold_dayStep_dom fold_dayStep_value
        split: sum.splits)

text \<open>
  The example of the claim: the provider fails on 2025-01-02 of the range 2025-01-01 to
  2025-01-03, and the result has the two entries of the other days.
\<close>

lemma example_days:
  "daysInRange (hreq_StartDate exampleRange) (hreq_EndDate exampleRange) =
     [exampleDay1, exampleDay2, exampleDay3]"
  by (simp add: daysInRange_def exampleRange_def exampleDay1_def exampleDay2_def
        exampleDay3_def Hour_def upt_conv_Cons)

lemma example_day_keys:
  "Format exampleDay1 = ''2025-01-01''"
  "Format exampleDay2 = ''2025-01-02''"
  "Format exampleDay3 = ''2025-01-03''"
  by (simp_all add: exampleDay1_def exampleDay2_def exampleDay3_def Format_eval)

lemma example_day_fetches:
  "FetchHistoricalRate exampleHTTP exampleNow
     \<lparr>cp_BaseCurrency = USD, cp_TargetCurrency = INR\<rparr> exampleDay1 exampleAPI
     = Inr \<lparr>BaseCurrency = USD, TargetCurrency = INR, Rate = Fin 82.5,
            Date = exampleDay1, LastUpdated = exampleNow\<rparr>"
  "FetchHistoricalRate exampleHTTP exampleNow
     \<lparr>cp_BaseCurrency = USD, cp_TargetCurrency = INR\<rparr> exampleDay2 exampleAPI
     = Inl (NonOKStatus 500)"
  "FetchHistoricalRate exampleHTTP exampleNow
     \<lparr>cp_BaseCurrency = USD, cp_TargetCurrency = INR\<rparr> exampleDay3 exampleAPI
     = Inr \<lparr>BaseCurrency = USD, TargetCurrency = INR, Rate = Fin 82.5,
            Date = exampleDay3, LastUpdated = exampleNow\<rparr>"
  by (simp_all add: FetchHistoricalRate_def withAccessKey_def exampleAPI_def exampleHTTP_def
        decodeQuotes_def StatusOK_def extractHistoricalRate_def exampleQuotes_def
        example_day_keys USD_def INR_def)

theorem range_best_effort_witness:
  "\<exists>res. FetchHistoricalRates exampleHTTP exampleNow exampleRange exampleAPI = Inr res \<and>
      fmdom' (hr_Rates res) = {''2025-01-01'', ''2025-01-03''} \<and>
      fmlookup (hr_Rates res) ''2025-01-01'' =
        Some \<lparr>BaseCurrency = USD, TargetCurrency = INR, Rate = Fin 82.5,
              Date = exampleDay1, LastUpdated = exampleNow\<rparr> \<and>
      fmlookup (hr_Rates res) ''2025-01-02'' = None \<and>
      fmlookup (hr_Rates res) ''2025-01-03'' =
        Some \<lparr>BaseCurrency = USD, TargetCurrency = INR, Rate = Fin 82.5,
              Date = exampleDay3, LastUpdated = exampleNow\<rparr>"
proof -
  have r: "hreq_BaseCurrency exampleRange = USD" "hreq_TargetCurrency exampleRange = INR"
    by (simp_all add: exampleRange_def)
  have fetched:
    "{d \<in> set [exampleDay1, exampleDay2, exampleDay3].
        \<not> isl (FetchHistoricalRate exampleHTTP exampleNow
                 \<lparr>cp_BaseCurrency = USD, cp_TargetCurrency = INR\<rparr> d exampleAPI)}
     = {exampleDay1, exampleDay3}"
    by (auto simp: example_day_fetches)
  have inj: "inj_on Format (set [exampleDay1, exampleDay2, exampleDay3])"
    by (auto simp: inj_on_def example_day_keys)
  let ?F = "\<lambda>d. FetchHistoricalRate exampleHTTP exampleNow
                   \<lparr>cp_BaseCurrency = USD, cp_TargetCurrency = INR\<rparr> d exampleAPI"
  from range_best_effort [of exampleHTTP exampleNow exampleRange exampleAPI,
      unfolded r example_days]
  obtain res where
    res: "FetchHistoricalRates exampleHTTP exampleNow exampleRange exampleAPI = Inr res"
    and keys: "fmdom' (hr_Rates res) =
      Format ` {d \<in> set [exampleDay1, exampleDay2, exampleDay3]. \<not> isl (?F d)}"
    and entries: "inj_on Format (set [exampleDay1, exampleDay2, exampleDay3]) \<longrightarrow>
      (\<forall>d \<in> set [exampleDay1, exampleDay2, exampleDay3].
         fmlookup (hr_Rates res) (Format d) =
           (case ?F d of Inl err \<Rightarrow> None | Inr rate \<Rightarrow> Some rate))"
    by blast
  have dom: "fmdom' (hr_Rates res) = {''2025-01-01'', ''2025-01-03''}"
    unfolding keys fetched by (simp add: example_day_keys)
  have "\<forall>d \<in> set [exampleDay1, exampleDay2, exampleDay3].
         fmlookup (hr_Rates res) (Format d) =
           (case ?F d of Inl err \<Rightarrow> None | Inr rate \<Rightarrow> Some rate)"
    using entries inj by blast
  then have
    "fmlookup (hr_Rates res) ''2025-01-01'' =
        Some \<lparr>BaseCurrency = USD, TargetCurrency = INR, Rate = Fin 82.5,
              Date = exampleDay1, LastUpdated = exampleNow\<rparr>"
    "fmlookup (hr_Rates res) ''2025-01-02'' = None"
    "fmlookup (hr_Rates res) ''2025-01-03'' =
        Some \<lparr>BaseCurrency = USD, TargetCurrency = INR, Rate = Fin 82.5,
              Date = exampleDay3, LastUpdated = exampleNow\<rparr>"
    by (simp_all add: example_day_keys example_day_fetches)
  with res dom show ?thesis
    by blast
qed

section \<open>Requests with the same currency on both sides\<close>

text \<open>
  C10 claims that no pair with base = target reaches the cache or the provider. The
  service has no such check: asked for the latest rate from USD to USD on an empty
  cache, it looks the pair (USD, USD) up in the cache and then requests it from the
  provider; a conversion from USD to USD does the same.
\<close>

theorem same_currency_counterexample:
  "IsSupported USD
   \<and> snd (snd (GetLatestRate (NewExchangeService exampleHTTP) exampleNow USD USD emptyWorld))
       = [CacheGet \<lparr>cp_BaseCurrency = USD, cp_TargetCurrency = USD\<rparr> exampleToday,
          RepoFetchLatestRate \<lparr>cp_BaseCurrency = USD, cp_TargetCurrency = USD\<rparr>]
   \<and> snd (snd (ConvertCurrency (NewExchangeService exampleHTTP) exampleNow
                  \<lparr>req_FromCurrency = USD, req_ToCurrency = USD, req_Amount = Fin 100,
                   req_Date = 0\<rparr> emptyWorld))
       = [CacheGet \<lparr>cp_BaseCurrency = USD, cp_TargetCurrency = USD\<rparr> exampleToday,
          RepoFetchLatestRate \<lparr>cp_BaseCurrency = USD, cp_TargetCurrency = USD\<rparr>]"
proof -
  have miss: "MemoryCache_Get exampleNow \<lparr>cp_BaseCurrency = USD, cp_TargetCurrency = USD\<rparr>
                exampleToday emptyCache = (None, emptyCache)"
    by (simp add: MemoryCache_Get_def emptyCache_def)
  have fetch: "FetchLatestRate exampleHTTP exampleNow
                 \<lparr>cp_BaseCurrency = USD, cp_TargetCurrency = USD\<rparr> exampleAPI
               = (Inl (RateNotFoundFor USD), exampleAPI)"
    by (simp add: FetchLatestRate_def exampleAPI_def fetchAllLatestRates_def
          withAccessKey_def exampleHTTP_def decodeQuotes_def StatusOK_def extractRate_def
          exampleQuotes_def USD_def)
  have latest: "GetLatestRate (NewExchangeService exampleHTTP) exampleNow USD USD emptyWorld
      = (Inl (Wrap ErrExternalAPIFailure (RateNotFoundFor USD)), emptyWorld,
         [CacheGet \<lparr>cp_BaseCurrency = USD, cp_TargetCurrency = USD\<rparr> exampleToday,
          RepoFetchLatestRate \<lparr>cp_BaseCurrency = USD, cp_TargetCurrency = USD\<rparr>])"
    by (simp add: GetLatestRate_def example_supported example_truncate
          NewExchangeService_def MemoryCache_port_def ExchangeAPI_port_def emptyWorld_def
          miss fetch)
  show ?thesis
    by (simp add: latest ConvertCurrency_def resolveRate_def IsZero_def example_supported
          fle_def)
qed

text \<open>
  C10, amended. For a supported currency \<open>c\<close> the service forwards the pair (c, c) like
  any other: \<open>GetLatestRate c c\<close> first looks (c, c) up in the cache for today and, when
  that lookup misses, next requests (c, c) from the provider; \<open>GetHistoricalRate c c\<close>
  with a date inside the window does the same for the day of the date; and a
  conversion from \<open>c\<close> to \<open>c\<close> with an amount greater than zero makes exactly the port
  calls of the rate operation it delegates to.
\<close>

theorem same_currency_forwarded:
  assumes "IsSupported c"
  shows "(\<exists>rest. snd (snd (GetLatestRate s now c c w)) =
            CacheGet \<lparr>cp_BaseCurrency = c, cp_TargetCurrency = c\<rparr> (Truncate now (24 * Hour))
              # rest)
       \<and> (fst (cache_Get (cache s) now \<lparr>cp_BaseCurrency = c, cp_TargetCurrency = c\<rparr>
                 (Truncate now (24 * Hour)) w) = None \<longrightarrow>
          (\<exists>rest. snd (snd (GetLatestRate s now c c w)) =
             CacheGet \<lparr>cp_BaseCurrency = c, cp_TargetCurrency = c\<rparr> (Truncate now (24 * Hour))
               # RepoFetchLatestRate \<lparr>cp_BaseCurrency = c, cp_TargetCurrency = c\<rparr> # rest))
       \<and> (validateDate now date = None \<longrightarrow>
          (\<exists>rest. snd (snd (GetHistoricalRate s now c c date w)) =
             CacheGet \<lparr>cp_BaseCurrency = c, cp_TargetCurrency = c\<rparr>
               (Truncate date (24 * Hour)) # rest) \<and>
          (fst (cache_Get (cache s) now \<lparr>cp_BaseCurrency = c, cp_TargetCurrency = c\<rparr>
                  (Truncate date (24 * Hour)) w) = None \<longrightarrow>
           (\<exists>rest. snd (snd (GetHistoricalRate s now c c date w)) =
              CacheGet \<lparr>cp_BaseCurrency = c, cp_TargetCurrency = c\<rparr>
                (Truncate date (24 * Hour))
                # RepoFetchHistoricalRate \<lparr>cp_BaseCurrency = c, cp_TargetCurrency = c\<rparr>
                    (Truncate date (24 * Hour)) # rest)))
       \<and> (flt (Fin 0) amount \<and> IsZero date \<longrightarrow>
          snd (snd (ConvertCurrency s now
                      \<lparr>req_FromCurrency = c, req_ToCurrency = c, req_Amount = amount,
                       req_Date = date\<rparr> w))
            = snd (snd (GetLatestRate s now c c w)))
       \<and> (flt (Fin 0) amount \<and> \<not> IsZero date \<and> validateDate now date = None \<longrightarrow>
          snd (snd (ConvertCurrency s now
                      \<lparr>req_FromCurrency = c, req_ToCurrency = c, req_Amount = amount,
                       req_Date = date\<rparr> w))
            = snd (snd (GetHistoricalRate s now c c date w)))"
proof -
  have latest: "\<exists>rest. snd (snd (GetLatestRate s now c c w)) =
            CacheGet \<lparr>cp_BaseCurrency = c, cp_TargetCurrency = c\<rparr> (Truncate now (24 * Hour))
              # rest"
    using assms
    by (auto simp: GetLatestRate_def split: prod.splits option.splits sum.splits)
  have latest_miss: "\<exists>rest. snd (snd (GetLatestRate s now c c w)) =
             CacheGet \<lparr>cp_BaseCurrency = c, cp_TargetCurrency = c\<rparr> (Truncate now (24 * Hour))
               # RepoFetchLatestRate \<lparr>cp_BaseCurrency = c, cp_TargetCurrency = c\<rparr> # rest"
    if "fst (cache_Get (cache s) now \<lparr>cp_BaseCurrency = c, cp_TargetCurrency = c\<rparr>
               (Truncate now (24 * Hour)) w) = None"
    using assms that
    by (auto simp: GetLatestRate_def split: prod.splits option.splits sum.splits)
  have hist: "\<exists>rest. snd (snd (GetHistoricalRate s now c c date w)) =
             CacheGet \<lparr>cp_BaseCurrency = c, cp_TargetCurrency = c\<rparr>
               (Truncate date (24 * Hour)) # rest"
    if "validateDate now date = None"
    using assms that
    by (auto simp: GetHistoricalRate_def split: prod.splits option.splits sum.splits)
  have hist_miss: "\<exists>rest. snd (snd (GetHistoricalRate s now c c date w)) =
              CacheGet \<lparr>cp_BaseCurrency = c, cp_TargetCurrency = c\<rparr>
                (Truncate date (24 * Hour))
                # RepoFetchHistoricalRate \<lparr>cp_BaseCurrency = c, cp_TargetCurrency = c\<rparr>
                    (Truncate date (24 * Hour)) # rest"
    if "validateDate now date = None"
      and "fst (cache_Get (cache s) now \<lparr>cp_BaseCurrency = c, cp_TargetCurrency = c\<rparr>
                  (Truncate date (24 * Hour)) w) = None"
    using assms that
    by (auto simp: GetHistoricalRate_def split: prod.splits option.splits sum.splits)
  have conv_latest: "snd (snd (ConvertCurrency s now
                      \<lparr>req_FromCurrency = c, req_ToCurrency = c, req_Amount = amount,
                       req_Date = date\<rparr> w))
            = snd (snd (GetLatestRate s now c c w))"
    if "flt (Fin 0) amount \<and> IsZero date"
    using assms that flt_zero_not_fle [of amount]
    by (auto simp: ConvertCurrency_def resolveRate_def split: prod.splits sum.splits)
  have conv_hist: "snd (snd (ConvertCurrency s now
                      \<lparr>req_FromCurrency = c, req_ToCurrency = c, req_Amount = amount,
                       req_Date = date\<rparr> w))
            = snd (snd (GetHistoricalRate s now c c date w))"
    if "flt (Fin 0) amount \<and> \<not> IsZero date \<and> validateDate now date = None"
    using assms that flt_zero_not_fle [of amount]
    by (auto simp: ConvertCurrency_def resolveRate_def split: prod.splits sum.splits)
  show ?thesis
    using latest latest_miss hist hist_miss conv_latest conv_hist by blast
qed

theorem same_currency_forwarded_witness:
  "(\<exists>rest. snd (snd (GetLatestRate (NewExchangeService exampleHTTP) exampleNow USD USD
                       emptyWorld)) =
      CacheGet \<lparr>cp_BaseCurrency = USD, cp_TargetCurrency = USD\<rparr>
        (Truncate exampleNow (24 * Hour))
        # RepoFetchLatestRate \<lparr>cp_BaseCurrency = USD, cp_TargetCurrency = USD\<rparr> # rest)
   \<and> snd (snd (ConvertCurrency (NewExchangeService exampleHTTP) exampleNow
                  \<lparr>req_FromCurrency = USD, req_ToCurrency = USD, req_Amount = Fin 100,
                   req_Date = 0\<rparr> emptyWorld))
       = snd (snd (GetLatestRate (NewExchangeService exampleHTTP) exampleNow USD USD
                     emptyWorld))
   \<and> (\<exists>rest. snd (snd (GetHistoricalRate (NewExchangeService exampleHTTP) exampleNow USD USD
                       exampleDay1 emptyWorld)) =
      CacheGet \<lparr>cp_BaseCurrency = USD, cp_TargetCurrency = USD\<rparr>
        (Truncate exampleDay1 (24 * Hour))
        # RepoFetchHistoricalRate \<lparr>cp_BaseCurrency = USD, cp_TargetCurrency = USD\<rparr>
            (Truncate exampleDay1 (24 * Hour)) # rest)
   \<and> snd (snd (ConvertCurrency (NewExchangeService exampleHTTP) exampleNow
                  \<lparr>req_FromCurrency = USD, req_ToCurrency = USD, req_Amount = Fin 100,
                   req_Date = exampleDay1\<rparr> emptyWorld))
       = snd (snd (GetHistoricalRate (NewExchangeService exampleHTTP) exampleNow USD USD
                     exampleDay1 emptyWorld))"
proof -
  have miss: "fst (cache_Get (cache (NewExchangeService exampleHTTP)) exampleNow
                     \<lparr>cp_BaseCurrency = USD, cp_TargetCurrency = USD\<rparr>
                     (Truncate exampleNow (24 * Hour)) emptyWorld) = None"
    by (simp add: NewExchangeService_def MemoryCache_port_def MemoryCache_Get_def
          emptyWorld_def emptyCache_def)
  have miss1: "fst (cache_Get (cache (NewExchangeService exampleHTTP)) exampleNow
                     \<lparr>cp_BaseCurrency = USD, cp_TargetCurrency = USD\<rparr>
                     (Truncate exampleDay1 (24 * Hour)) emptyWorld) = None"
    by (simp add: NewExchangeService_def MemoryCache_port_def MemoryCache_Get_def
          emptyWorld_def emptyCache_def)
  have valid: "validateDate exampleNow exampleDay1 = None"
    unfolding validateDate_def example_truncate
    by (simp add: Before_def AddDate_days_def exampleToday_def exampleDay1_def Hour_def)
  have nz: "\<not> IsZero exampleDay1"
    by (simp add: IsZero_def exampleDay1_def Hour_def)
  have pos: "flt (Fin 0) (Fin 100)"
    by (simp add: flt_def)
  show ?thesis
    using miss miss1 valid nz pos
      same_currency_forwarded [where c = USD and s = "NewExchangeService exampleHTTP"
        and now = exampleNow and w = emptyWorld and amount = "Fin 100" and date = 0]
      same_currency_forwarded [where c = USD and s = "NewExchangeService exampleHTTP"
        and now = exampleNow and w = emptyWorld and amount = "Fin 100"
        and date = exampleDay1]
    by (simp add: example_supported IsZero_def)
qed

end
